theory Spec2Isabelle
  imports Main
begin

section \<open>Tokens and lexer\<close>

text \<open>
  \<open>enum class TokenType\<close>. The enumerators carry the prefix \<open>T_\<close> here, since \<open>NUMBER\<close>,
  \<open>STRING\<close> and \<open>UNKNOWN\<close> are also enumerators of \<open>DataType\<close>.
\<close>

datatype TokenType =
    T_BANAO | T_KAAM | T_AGAR | T_WARNAH | T_DAURA | T_WAPAS | T_DEKH | T_LOU | T_HAAN | T_NA
  | T_BAND
  | T_NUMBER | T_STRING | T_IDENTIFIER
  | T_PLUS | T_MINUS | T_STAR | T_SLASH | T_PERCENT | T_ASSIGN
  | T_PLUS_ASSIGN | T_MINUS_ASSIGN | T_STAR_ASSIGN | T_SLASH_ASSIGN
  | T_EQ | T_NE | T_LT | T_GT | T_LE | T_GE | T_AND | T_OR | T_NOT
  | T_LPAREN | T_RPAREN | T_LBRACE | T_RBRACE | T_LBRACKET | T_RBRACKET
  | T_SEMICOLON | T_COMMA | T_COLON | T_DOT
  | T_EOF_TOKEN | T_UNKNOWN

text \<open>
  \<open>struct Token\<close>; its fields \<open>type\<close>, \<open>value\<close>, \<open>line\<close> and \<open>column\<close> carry a \<open>t\<close> in
  front. Lines and columns are \<open>int\<close> in the source and are unbounded integers here.
\<close>

record Token =
  ttype :: TokenType
  tvalue :: string
  tline :: int
  tcolumn :: int

definition mkToken :: "TokenType \<Rightarrow> string \<Rightarrow> int \<Rightarrow> int \<Rightarrow> Token" where
  "mkToken t v l c = \<lparr>ttype = t, tvalue = v, tline = l, tcolumn = c\<rparr>"

text \<open>
  \<open>class Lexer\<close>: the source text, the position in it, the line and the column. The
  field \<open>reads\<close> is not in the source. It is the record of the indices at which
  \<open>source[...]\<close> has been evaluated, the latest last, one entry for each test or group of
  tests on the same character.
\<close>

record Lexer =
  source :: string
  pos :: nat
  line :: int
  column :: int
  reads :: "nat list"

definition newLexer :: "string \<Rightarrow> Lexer" where
  "newLexer src = \<lparr>source = src, pos = 0, line = 1, column = 1, reads = []\<rparr>"

text \<open>
  \<open>source[i]\<close> on a \<open>std::string\<close>: the character at \<open>i\<close> below the length, and the
  terminating null character at the length itself. Beyond that the behaviour is undefined;
  the lexer never asks there.
\<close>

definition charAt :: "string \<Rightarrow> nat \<Rightarrow> char" where
  "charAt s i = (if i < length s then s ! i else CHR 0x00)"

definition readAt :: "nat \<Rightarrow> Lexer \<Rightarrow> Lexer" where
  "readAt i l = l\<lparr>reads := reads l @ [i]\<rparr>"

text \<open>The character classes of \<open>cctype\<close> in the C locale.\<close>

definition isspace :: "char \<Rightarrow> bool" where
  "isspace c \<longleftrightarrow> c \<in> {CHR '' '', CHR 0x09, CHR 0x0A, CHR 0x0B, CHR 0x0C, CHR 0x0D}"

definition isdigit :: "char \<Rightarrow> bool" where
  "isdigit c \<longleftrightarrow> c \<in> set ''0123456789''"

definition isalpha :: "char \<Rightarrow> bool" where
  "isalpha c \<longleftrightarrow> c \<in> set ''abcdefghijklmnopqrstuvwxyzABCDEFGHIJKLMNOPQRSTUVWXYZ''"

definition isalnum :: "char \<Rightarrow> bool" where
  "isalnum c \<longleftrightarrow> isalpha c \<or> isdigit c"

text \<open>The table \<open>keywords\<close> of the lexer.\<close>

definition keywordTable :: "string \<rightharpoonup> TokenType" where
  "keywordTable =
     map_of
       [(''banao'', T_BANAO), (''kaam'', T_KAAM), (''agar'', T_AGAR), (''warnah'', T_WARNAH),
        (''daura'', T_DAURA), (''wapas'', T_WAPAS), (''dekh'', T_DEKH), (''lou'', T_LOU),
        (''haan'', T_HAAN), (''na'', T_NA), (''band'', T_BAND)]"

text \<open>The inner loop of \<open>skipWhitespaceAndComments\<close>, which runs to the end of the line.\<close>

function skipComment :: "Lexer \<Rightarrow> Lexer" where
  "skipComment l =
     (if pos l < length (source l) then
        (if charAt (source l) (pos l) \<noteq> CHR 0x0A
         then skipComment (readAt (pos l) l\<lparr>pos := pos l + 1\<rparr>)
         else readAt (pos l) l)
      else l)"
  by pat_completeness auto
termination
  by (relation "measure (\<lambda>l. length (source l) - pos l)") (auto simp: readAt_def)

declare skipComment.simps [simp del]

function skipWhitespaceAndComments :: "Lexer \<Rightarrow> Lexer" where
  "skipWhitespaceAndComments l =
     (if pos l < length (source l) then
        (if isspace (charAt (source l) (pos l)) then
           skipWhitespaceAndComments
             (if charAt (source l) (pos l) = CHR 0x0A
              then readAt (pos l) l\<lparr>line := line l + 1, column := 1, pos := pos l + 1\<rparr>
              else readAt (pos l) l\<lparr>column := column l + 1, pos := pos l + 1\<rparr>)
         else if charAt (source l) (pos l) = CHR ''/'' \<and> pos l + 1 < length (source l) then
           (if charAt (source l) (pos l + 1) = CHR ''/''
            then skipWhitespaceAndComments (skipComment (readAt (pos l + 1) (readAt (pos l) l)))
            else readAt (pos l + 1) (readAt (pos l) l))
         else readAt (pos l) l)
      else l)"
  by pat_completeness auto
termination
proof (relation "measure (\<lambda>l. length (source l) - pos l)", goal_cases)
  case 1
  show ?case by simp
next
  case (2 l)
  then show ?case by (auto simp: readAt_def)
next
  case (3 l)
  have keep: "source (skipComment k) = source k \<and> pos k \<le> pos (skipComment k)" for k
  proof (induction k rule: skipComment.induct)
    case (1 k)
    show ?case
    proof (cases "pos k < length (source k) \<and> charAt (source k) (pos k) \<noteq> CHR 0x0A")
      case True
      with 1 show ?thesis
        by (subst (1 2) skipComment.simps) (simp add: readAt_def)
    next
      case False
      then show ?thesis
        by (subst (1 2) skipComment.simps) (auto simp: readAt_def)
    qed
  qed
  let ?k = "readAt (pos l + 1) (readAt (pos l) l)"
  from 3 have step: "skipComment ?k = skipComment (readAt (pos ?k) ?k\<lparr>pos := pos ?k + 1\<rparr>)"
    by (subst skipComment.simps) (simp add: readAt_def)
  from keep [of "readAt (pos ?k) ?k\<lparr>pos := pos ?k + 1\<rparr>"] step
  have "source (skipComment ?k) = source l \<and> pos l < pos (skipComment ?k)"
    by (simp add: readAt_def)
  with 3 show ?case by auto
qed

declare skipWhitespaceAndComments.simps [simp del]

text \<open>
  The loops of \<open>scanString\<close>, \<open>scanNumber\<close> and \<open>scanIdentifierOrKeyword\<close> carry the text
  collected so far, \<open>value\<close> in the source.
\<close>

function scanStringLoop :: "char \<Rightarrow> string \<Rightarrow> Lexer \<Rightarrow> string \<times> Lexer" where
  "scanStringLoop quote v l =
     (if pos l < length (source l) then
        (if charAt (source l) (pos l) \<noteq> quote then
           scanStringLoop quote (v @ [charAt (source l) (pos l)])
             (if charAt (source l) (pos l) = CHR 0x0A
              then readAt (pos l) l\<lparr>line := line l + 1, column := 1, pos := pos l + 1\<rparr>
              else readAt (pos l) l\<lparr>column := column l + 1, pos := pos l + 1\<rparr>)
         else (v, readAt (pos l) l))
      else (v, l))"
  by pat_completeness auto
termination
  by (relation "measure (\<lambda>(quote, v, l). length (source l) - pos l)") (auto simp: readAt_def)

declare scanStringLoop.simps [simp del]

definition scanString :: "char \<Rightarrow> Lexer \<Rightarrow> Token \<times> Lexer" where
  "scanString quote l =
     (let tokenLine = line l; tokenCol = column l;
          l1 = l\<lparr>pos := pos l + 1, column := column l + 1\<rparr>;
          (v, l2) = scanStringLoop quote [] l1;
          l3 = (if pos l2 < length (source l2)
                then l2\<lparr>pos := pos l2 + 1, column := column l2 + 1\<rparr> else l2)
      in (mkToken T_STRING v tokenLine tokenCol, l3))"

function scanNumberLoop :: "string \<Rightarrow> Lexer \<Rightarrow> string \<times> Lexer" where
  "scanNumberLoop v l =
     (if pos l < length (source l) then
        (if isdigit (charAt (source l) (pos l)) \<or> charAt (source l) (pos l) = CHR ''.''
         then scanNumberLoop (v @ [charAt (source l) (pos l)])
                (readAt (pos l) l\<lparr>pos := pos l + 1, column := column l + 1\<rparr>)
         else (v, readAt (pos l) l))
      else (v, l))"
  by pat_completeness auto
termination
  by (relation "measure (\<lambda>(v, l). length (source l) - pos l)") (auto simp: readAt_def)

declare scanNumberLoop.simps [simp del]

definition scanNumber :: "Lexer \<Rightarrow> Token \<times> Lexer" where
  "scanNumber l =
     (let tokenLine = line l; tokenCol = column l;
          (v, l1) = scanNumberLoop [] l
      in (mkToken T_NUMBER v tokenLine tokenCol, l1))"

function scanIdentifierLoop :: "string \<Rightarrow> Lexer \<Rightarrow> string \<times> Lexer" where
  "scanIdentifierLoop v l =
     (if pos l < length (source l) then
        (if isalnum (charAt (source l) (pos l)) \<or> charAt (source l) (pos l) = CHR ''_''
         then scanIdentifierLoop (v @ [charAt (source l) (pos l)])
                (readAt (pos l) l\<lparr>pos := pos l + 1, column := column l + 1\<rparr>)
         else (v, readAt (pos l) l))
      else (v, l))"
  by pat_completeness auto
termination
  by (relation "measure (\<lambda>(v, l). length (source l) - pos l)") (auto simp: readAt_def)

declare scanIdentifierLoop.simps [simp del]

definition scanIdentifierOrKeyword :: "Lexer \<Rightarrow> Token \<times> Lexer" where
  "scanIdentifierOrKeyword l =
     (let tokenLine = line l; tokenCol = column l;
          (v, l1) = scanIdentifierLoop [] l
      in (case keywordTable v of
            Some t \<Rightarrow> (mkToken t v tokenLine tokenCol, l1)
          | None \<Rightarrow> (mkToken T_IDENTIFIER v tokenLine tokenCol, l1)))"

text \<open>
  A case of the \<open>switch\<close> of \<open>nextToken\<close> that looks one character ahead,
  \<^verbatim>\<open>source[pos] == second ? (pos++, column++, Token(two, ...)) : Token(one, ...)\<close>.
  The position has been advanced past the first character already, and the source reads
  \<open>source[pos]\<close> without comparing \<open>pos\<close> with the length.
\<close>

definition lookahead ::
    "char \<Rightarrow> TokenType \<Rightarrow> string \<Rightarrow> TokenType \<Rightarrow> string \<Rightarrow> int \<Rightarrow> int \<Rightarrow> Lexer \<Rightarrow> Token \<times> Lexer" where
  "lookahead second two twoText one oneText tokenLine tokenCol l =
     (if charAt (source l) (pos l) = second
      then (mkToken two twoText tokenLine tokenCol,
            readAt (pos l) l\<lparr>pos := pos l + 1, column := column l + 1\<rparr>)
      else (mkToken one oneText tokenLine tokenCol, readAt (pos l) l))"

definition nextToken :: "Lexer \<Rightarrow> Token \<times> Lexer" where
  "nextToken l0 =
     (let l = skipWhitespaceAndComments l0 in
      if pos l \<ge> length (source l) then (mkToken T_EOF_TOKEN [] (line l) (column l), l)
      else
        (let tokenLine = line l; tokenCol = column l; ch = charAt (source l) (pos l);
             l1 = readAt (pos l) l
         in if ch = CHR 0x27 \<or> ch = CHR 0x22 then scanString ch l1
            else if isdigit ch then scanNumber l1
            else if isalpha ch \<or> ch = CHR ''_'' then scanIdentifierOrKeyword l1
            else
              (let l2 = l1\<lparr>pos := pos l1 + 1, column := column l1 + 1\<rparr> in
               if ch = CHR ''+'' then
                 lookahead CHR ''='' T_PLUS_ASSIGN ''+='' T_PLUS ''+'' tokenLine tokenCol l2
               else if ch = CHR ''-'' then
                 lookahead CHR ''='' T_MINUS_ASSIGN ''-='' T_MINUS ''-'' tokenLine tokenCol l2
               else if ch = CHR ''*'' then
                 lookahead CHR ''='' T_STAR_ASSIGN ''*='' T_STAR ''*'' tokenLine tokenCol l2
               else if ch = CHR ''/'' then
                 lookahead CHR ''='' T_SLASH_ASSIGN ''/='' T_SLASH ''/'' tokenLine tokenCol l2
               else if ch = CHR ''%'' then (mkToken T_PERCENT ''%'' tokenLine tokenCol, l2)
               else if ch = CHR ''='' then
                 lookahead CHR ''='' T_EQ ''=='' T_ASSIGN ''='' tokenLine tokenCol l2
               else if ch = CHR ''!'' then
                 lookahead CHR ''='' T_NE ''!='' T_NOT ''!'' tokenLine tokenCol l2
               else if ch = CHR ''<'' then
                 lookahead CHR ''='' T_LE ''<='' T_LT ''<'' tokenLine tokenCol l2
               else if ch = CHR ''>'' then
                 lookahead CHR ''='' T_GE ''>='' T_GT ''>'' tokenLine tokenCol l2
               else if ch = CHR ''&'' then
                 lookahead CHR ''&'' T_AND ''&&'' T_UNKNOWN ''&'' tokenLine tokenCol l2
               else if ch = CHR ''|'' then
                 lookahead CHR ''|'' T_OR ''||'' T_UNKNOWN ''|'' tokenLine tokenCol l2
               else if ch = CHR ''('' then (mkToken T_LPAREN ''('' tokenLine tokenCol, l2)
               else if ch = CHR '')'' then (mkToken T_RPAREN '')'' tokenLine tokenCol, l2)
               else if ch = CHR ''{'' then (mkToken T_LBRACE ''{'' tokenLine tokenCol, l2)
               else if ch = CHR ''}'' then (mkToken T_RBRACE ''}'' tokenLine tokenCol, l2)
               else if ch = CHR ''['' then (mkToken T_LBRACKET ''['' tokenLine tokenCol, l2)
               else if ch = CHR '']'' then (mkToken T_RBRACKET '']'' tokenLine tokenCol, l2)
               else if ch = CHR '';'' then (mkToken T_SEMICOLON '';'' tokenLine tokenCol, l2)
               else if ch = CHR '','' then (mkToken T_COMMA '','' tokenLine tokenCol, l2)
               else if ch = CHR '':'' then (mkToken T_COLON '':'' tokenLine tokenCol, l2)
               else if ch = CHR ''.'' then (mkToken T_DOT ''.'' tokenLine tokenCol, l2)
               else (mkToken T_UNKNOWN [ch] tokenLine tokenCol, l2))))"

text \<open>
  The loop of \<open>main\<close> that collects the tokens: every token up to the first end-of-input
  token, and that one as the last element. It terminates because \<open>nextToken\<close> leaves the
  source as it is and moves the position forward whenever it returns another token.
\<close>

function tokenizeLoop :: "Lexer \<Rightarrow> Token list" where
  "tokenizeLoop l =
     (case nextToken l of
        (token, l') \<Rightarrow> if ttype token \<noteq> T_EOF_TOKEN then token # tokenizeLoop l' else [token])"
  by pat_completeness auto
termination
proof (relation "measure (\<lambda>l. length (source l) - pos l)", goal_cases)
  case 1
  show ?case by simp
next
  case (2 l token l')
  have comment: "source (skipComment k) = source k \<and> pos k \<le> pos (skipComment k)" for k
  proof (induction k rule: skipComment.induct)
    case (1 k)
    show ?case
    proof (cases "pos k < length (source k) \<and> charAt (source k) (pos k) \<noteq> CHR 0x0A")
      case True
      with 1 show ?thesis
        by (subst (1 2) skipComment.simps) (simp add: readAt_def)
    next
      case False
      then show ?thesis
        by (subst (1 2) skipComment.simps) (auto simp: readAt_def)
    qed
  qed
  have skip: "source (skipWhitespaceAndComments k) = source k
              \<and> pos k \<le> pos (skipWhitespaceAndComments k)" for k
  proof (induction k rule: skipWhitespaceAndComments.induct)
    case (1 k)
    show ?case
      using 1 comment [of "readAt (pos k + 1) (readAt (pos k) k)"]
      by (subst (1 2) skipWhitespaceAndComments.simps) (auto simp: readAt_def)
  qed
  have str: "source (snd (scanStringLoop qt v k)) = source k
             \<and> pos k \<le> pos (snd (scanStringLoop qt v k))" for qt v k
  proof (induction qt v k rule: scanStringLoop.induct)
    case (1 qt v k)
    show ?case
      using 1 by (subst (1 2) scanStringLoop.simps) (auto simp: readAt_def)
  qed
  have num: "source (snd (scanNumberLoop v k)) = source k
             \<and> pos k \<le> pos (snd (scanNumberLoop v k))" for v k
  proof (induction v k rule: scanNumberLoop.induct)
    case (1 v k)
    show ?case
      using 1 by (subst (1 2) scanNumberLoop.simps) (auto simp: readAt_def)
  qed
  have ident: "source (snd (scanIdentifierLoop v k)) = source k
               \<and> pos k \<le> pos (snd (scanIdentifierLoop v k))" for v k
  proof (induction v k rule: scanIdentifierLoop.induct)
    case (1 v k)
    show ?case
      using 1 by (subst (1 2) scanIdentifierLoop.simps) (auto simp: readAt_def)
  qed
  have scanString_progress:
    "source (snd (scanString qt k)) = source k \<and> pos k < pos (snd (scanString qt k))" for qt k
    using str [of qt "[]" "k\<lparr>pos := pos k + 1, column := column k + 1\<rparr>"]
    by (auto simp: scanString_def Let_def split: prod.splits)
  have scanNumber_progress:
    "source (snd (scanNumber k)) = source k \<and> pos k < pos (snd (scanNumber k))"
    if "pos k < length (source k)" "isdigit (charAt (source k) (pos k))" for k
  proof -
    let ?k = "readAt (pos k) k\<lparr>pos := pos k + 1, column := column k + 1\<rparr>"
    from that have "scanNumberLoop [] k = scanNumberLoop [charAt (source k) (pos k)] ?k"
      by (subst scanNumberLoop.simps) simp
    with num [of "[charAt (source k) (pos k)]" ?k] show ?thesis
      by (auto simp: scanNumber_def Let_def readAt_def split: prod.splits)
  qed
  have scanIdentifier_progress:
    "source (snd (scanIdentifierOrKeyword k)) = source k
     \<and> pos k < pos (snd (scanIdentifierOrKeyword k))"
    if "pos k < length (source k)"
       "isalpha (charAt (source k) (pos k)) \<or> charAt (source k) (pos k) = CHR ''_''" for k
  proof -
    let ?k = "readAt (pos k) k\<lparr>pos := pos k + 1, column := column k + 1\<rparr>"
    from that have "scanIdentifierLoop [] k = scanIdentifierLoop [charAt (source k) (pos k)] ?k"
      by (subst scanIdentifierLoop.simps) (auto simp: isalnum_def)
    with ident [of "[charAt (source k) (pos k)]" ?k] show ?thesis
      by (auto simp: scanIdentifierOrKeyword_def Let_def readAt_def
            split: prod.splits option.splits)
  qed
  have lookahead_progress:
    "source (snd (lookahead ch t2 v2 t1 v1 ln cl k)) = source k
     \<and> pos k \<le> pos (snd (lookahead ch t2 v2 t1 v1 ln cl k))" for ch t2 v2 t1 v1 ln cl k
    by (simp add: lookahead_def readAt_def)
  let ?k = "skipWhitespaceAndComments l"
  let ?k1 = "readAt (pos ?k) ?k"
  have k: "source ?k = source l" "pos l \<le> pos ?k"
    using skip [of l] by simp_all
  have k1: "source ?k1 = source l" "pos ?k1 = pos ?k"
    using k by (simp_all add: readAt_def)
  from 2 have ne: "ttype (fst (nextToken l)) \<noteq> T_EOF_TOKEN" and l': "l' = snd (nextToken l)"
    by (simp_all add: prod_eq_iff)
  have inside: "pos ?k < length (source l)"
  proof (rule ccontr)
    assume "\<not> pos ?k < length (source l)"
    with k have "length (source ?k) \<le> pos ?k" by simp
    then have "ttype (fst (nextToken l)) = T_EOF_TOKEN"
      by (simp add: nextToken_def mkToken_def Let_def)
    with ne show False by simp
  qed
  have s: "source (snd (scanString qt ?k1)) = source l \<and> pos l < pos (snd (scanString qt ?k1))"
    for qt
    using scanString_progress [of qt ?k1] k k1 by simp
  have n: "isdigit (charAt (source l) (pos ?k)) \<Longrightarrow>
           source (snd (scanNumber ?k1)) = source l \<and> pos l < pos (snd (scanNumber ?k1))"
    using scanNumber_progress [of ?k1] inside k k1 by simp
  have i: "isalpha (charAt (source l) (pos ?k)) \<or> charAt (source l) (pos ?k) = CHR ''_'' \<Longrightarrow>
           source (snd (scanIdentifierOrKeyword ?k1)) = source l
           \<and> pos l < pos (snd (scanIdentifierOrKeyword ?k1))"
    using scanIdentifier_progress [of ?k1] inside k k1 by simp
  have o: "source (snd (lookahead ch t2 v2 t1 v1 ln cl
              (?k1\<lparr>pos := pos ?k1 + 1, column := column ?k1 + 1\<rparr>))) = source l
           \<and> pos l < pos (snd (lookahead ch t2 v2 t1 v1 ln cl
              (?k1\<lparr>pos := pos ?k1 + 1, column := column ?k1 + 1\<rparr>)))"
    for ch t2 v2 t1 v1 ln cl
    using lookahead_progress
            [of ch t2 v2 t1 v1 ln cl "?k1\<lparr>pos := pos ?k1 + 1, column := column ?k1 + 1\<rparr>"] k k1
    by simp
  from inside k k1 s n i o
  have "source (snd (nextToken l)) = source l \<and> pos l < pos (snd (nextToken l))"
    by (simp add: nextToken_def Let_def)
  with inside k l' show ?case by auto
qed

declare tokenizeLoop.simps [simp del]

definition tokenize :: "string \<Rightarrow> Token list" where
  "tokenize src = tokenizeLoop (newLexer src)"

section \<open>Type system\<close>

text \<open>The enumeration \<open>DataType\<close> of the source and its printer \<open>dataTypeToString\<close>.\<close>

datatype DataType = UNKNOWN | NUMBER | STRING | BOOLEAN | ARRAY | OBJECT | VOID | NIL

fun dataTypeToString :: "DataType \<Rightarrow> string" where
  "dataTypeToString NUMBER = ''number''"
| "dataTypeToString STRING = ''string''"
| "dataTypeToString BOOLEAN = ''boolean''"
| "dataTypeToString ARRAY = ''array''"
| "dataTypeToString OBJECT = ''object''"
| "dataTypeToString VOID = ''void''"
| "dataTypeToString NIL = ''nil''"
| "dataTypeToString UNKNOWN = ''unknown''"

section \<open>Symbol table and scope management\<close>

text \<open>
  \<open>struct Symbol\<close>. The constructor \<open>Symbol(n, t, func, init)\<close> leaves \<open>paramTypes\<close>
  empty and sets \<open>returnType\<close> to \<open>VOID\<close>.
\<close>

record Symbol =
  name :: string
  type :: DataType
  isFunction :: bool
  isInitialized :: bool
  paramTypes :: "DataType list"
  returnType :: DataType

definition mkSymbol :: "string \<Rightarrow> DataType \<Rightarrow> bool \<Rightarrow> bool \<Rightarrow> Symbol" where
  "mkSymbol n t func init =
     \<lparr>name = n, type = t, isFunction = func, isInitialized = init,
      paramTypes = [], returnType = VOID\<rparr>"

text \<open>
  \<open>class SymbolTable\<close> holds one field, \<open>scopes\<close>, a vector of hash maps from names to
  symbols: the global scope is at index 0 and \<open>scopes.back()\<close> is the innermost scope.
  A hash map is a partial function, the vector a list in the order of the source.
\<close>

type_synonym Scope = "string \<rightharpoonup> Symbol"
type_synonym SymbolTable = "Scope list"

definition enterScope :: "SymbolTable \<Rightarrow> SymbolTable" where
  "enterScope scopes = scopes @ [Map.empty]"

definition exitScope :: "SymbolTable \<Rightarrow> SymbolTable" where
  "exitScope scopes = (if length scopes > 1 then butlast scopes else scopes)"

text \<open>
  \<open>define\<close> (here \<open>define_sym\<close>, as \<open>define\<close> is a keyword of Isabelle) returns the
  flag of the source together with the updated table.
  \<open>scopes.back()\<close> of an empty vector is undefined behaviour in C++; the constructor
  pushes the global scope and no operation removes it, so that case is never reached, and
  the model answers \<open>False\<close> there without touching the table.
\<close>

definition define_sym :: "string \<Rightarrow> DataType \<Rightarrow> bool \<Rightarrow> bool \<Rightarrow> SymbolTable \<Rightarrow> bool \<times> SymbolTable" where
  "define_sym n t isFunc isInit scopes =
     (if scopes = [] then (False, scopes)
      else if (last scopes) n \<noteq> None then (False, scopes)
      else (True, butlast scopes @ [(last scopes)(n \<mapsto> mkSymbol n t isFunc isInit)]))"

text \<open>
  \<open>lookup\<close> and \<open>update\<close> walk the vector with reverse iterators, from the innermost
  scope outwards; the helper functions recurse over the reversed list.
\<close>

fun lookupFrom :: "string \<Rightarrow> Scope list \<Rightarrow> Symbol option" where
  "lookupFrom n [] = None"
| "lookupFrom n (sc # rest) =
     (case sc n of Some s \<Rightarrow> Some s | None \<Rightarrow> lookupFrom n rest)"

definition lookup :: "string \<Rightarrow> SymbolTable \<Rightarrow> Symbol option" where
  "lookup n scopes = lookupFrom n (rev scopes)"

fun updateFrom :: "string \<Rightarrow> Scope list \<Rightarrow> bool \<times> Scope list" where
  "updateFrom n [] = (False, [])"
| "updateFrom n (sc # rest) =
     (case sc n of
        Some s \<Rightarrow> (True, sc(n \<mapsto> s\<lparr>isInitialized := True\<rparr>) # rest)
      | None \<Rightarrow> (case updateFrom n rest of (b, rest') \<Rightarrow> (b, sc # rest')))"

definition update :: "string \<Rightarrow> SymbolTable \<Rightarrow> bool \<times> SymbolTable" where
  "update n scopes = (case updateFrom n (rev scopes) of (b, r) \<Rightarrow> (b, rev r))"

definition addFunctionSignature ::
    "string \<Rightarrow> DataType list \<Rightarrow> DataType \<Rightarrow> SymbolTable \<Rightarrow> SymbolTable" where
  "addFunctionSignature n params ret scopes =
     (case scopes of
        [] \<Rightarrow> []
      | g # rest \<Rightarrow>
          g(n \<mapsto> (mkSymbol n VOID True True)\<lparr>paramTypes := params, returnType := ret\<rparr>) # rest)"

definition initBuiltins :: "SymbolTable \<Rightarrow> SymbolTable" where
  "initBuiltins =
     addFunctionSignature ''random'' [] NUMBER
     \<circ> addFunctionSignature ''round'' [NUMBER] NUMBER
     \<circ> addFunctionSignature ''min'' [NUMBER, NUMBER] NUMBER
     \<circ> addFunctionSignature ''max'' [NUMBER, NUMBER] NUMBER
     \<circ> addFunctionSignature ''pow'' [NUMBER, NUMBER] NUMBER
     \<circ> addFunctionSignature ''sqrt'' [NUMBER] NUMBER
     \<circ> addFunctionSignature ''abs'' [NUMBER] NUMBER
     \<circ> addFunctionSignature ''band'' [] VOID
     \<circ> addFunctionSignature ''nikal'' [UNKNOWN] NUMBER
     \<circ> addFunctionSignature ''lou'' [STRING] NUMBER
     \<circ> addFunctionSignature ''dekh'' [UNKNOWN] VOID"

text \<open>The constructor \<open>SymbolTable()\<close>: push the global scope, then install the builtins.\<close>

definition newSymbolTable :: SymbolTable where
  "newSymbolTable = initBuiltins [Map.empty]"

definition builtinNames :: "string list" where
  "builtinNames =
     [''dekh'', ''lou'', ''nikal'', ''band'', ''abs'', ''sqrt'', ''pow'', ''max'', ''min'',
      ''round'', ''random'']"

text \<open>
  The public operations of the table as a datatype, and a run of a sequence of them from
  construction. The values that \<open>define\<close>, \<open>lookup\<close> and \<open>update\<close> hand back to the
  caller do not influence the table and are dropped here.
\<close>

datatype TableOp =
    EnterScope
  | ExitScope
  | Define string DataType bool bool
  | Lookup string
  | Update string
  | AddFunctionSignature string "DataType list" DataType

fun applyOp :: "SymbolTable \<Rightarrow> TableOp \<Rightarrow> SymbolTable" where
  "applyOp scopes EnterScope = enterScope scopes"
| "applyOp scopes ExitScope = exitScope scopes"
| "applyOp scopes (Define n t f i) = snd (define_sym n t f i scopes)"
| "applyOp scopes (Lookup n) = scopes"
| "applyOp scopes (Update n) = snd (update n scopes)"
| "applyOp scopes (AddFunctionSignature n ps r) = addFunctionSignature n ps r scopes"

definition runOps :: "TableOp list \<Rightarrow> SymbolTable" where
  "runOps ops = foldl applyOp newSymbolTable ops"

text \<open>The depth that a sequence of operations reaches, counted as the source does.\<close>

fun depthAfter :: "nat \<Rightarrow> TableOp list \<Rightarrow> nat" where
  "depthAfter d [] = d"
| "depthAfter d (EnterScope # ops) = depthAfter (Suc d) ops"
| "depthAfter d (ExitScope # ops) = depthAfter (if d > 1 then d - 1 else d) ops"
| "depthAfter d (_ # ops) = depthAfter d ops"

section \<open>Abstract syntax tree\<close>

text \<open>
  The node classes of the source, one constructor for each. A \<open>unique_ptr\<close> that the
  parser may leave null (the initializer of a declaration, the value of a return) is an
  option. \<open>NumberLiteral\<close> keeps the text of the literal: the source converts it to a
  \<open>double\<close> that no later stage reads; that the conversion can fail is part of the parser. The field \<open>type\<close> that the analyzer stamps on
  identifier nodes is read by nothing and is left out.
\<close>

datatype Expression =
    NumberLiteral string
  | StringLiteral string
  | BooleanLiteral bool
  | Identifier string
  | BinaryOp Expression string Expression
  | UnaryOp string Expression
  | Assignment string Expression
  | FunctionCall string "Expression list"
  | ArrayLiteral "Expression list"
  | ObjectLiteral "(string \<times> Expression) list"
  | ArrayAccess string Expression

datatype Statement =
    VariableDeclaration string "Expression option"
  | FunctionDeclaration string "string list" "Statement list"
  | IfStatement Expression "Statement list" "Statement list"
  | LoopStatement Expression "Statement list"
  | ReturnStatement "Expression option"
  | ExpressionStatement Expression

type_synonym Program = "Statement list"

text \<open>\<open>std::to_string\<close> on an unsigned size, in decimal.\<close>

fun to_string :: "nat \<Rightarrow> string" where
  "to_string n =
     (if n < 10 then [''0123456789'' ! n]
      else to_string (n div 10) @ [''0123456789'' ! (n mod 10)])"

declare to_string.simps [simp del]

section \<open>Parser\<close>

text \<open>
  The parser holds the token vector and the index \<open>current\<close>. A parsing function takes
  the tokens and the index and returns \<open>None\<close> when the fuel is used up, \<open>Some (Inl msg)\<close>
  when the source throws \<open>std::runtime_error(msg)\<close> or \<open>std::stod\<close> throws an exception
  whose \<open>what()\<close> is \<open>msg\<close>, and \<open>Some (Inr (x, current'))\<close> when it returns \<open>x\<close> with
  the index moved to \<open>current'\<close>.
\<close>

type_synonym 'a parsing = "(string + 'a \<times> nat) option"

definition ok :: "'a \<Rightarrow> nat \<Rightarrow> 'a parsing" where
  "ok x c = Some (Inr (x, c))"

definition throw :: "string \<Rightarrow> 'a parsing" where
  "throw msg = Some (Inl msg)"

definition andThen :: "'a parsing \<Rightarrow> ('a \<Rightarrow> nat \<Rightarrow> 'b parsing) \<Rightarrow> 'b parsing" where
  "andThen m f =
     (case m of
        None \<Rightarrow> None
      | Some (Inl msg) \<Rightarrow> Some (Inl msg)
      | Some (Inr (x, c)) \<Rightarrow> f x c)"

text \<open>\<open>std::to_string\<close> on an \<open>int\<close>.\<close>

definition to_string_int :: "int \<Rightarrow> string" where
  "to_string_int i = (if i < 0 then ''-'' @ to_string (nat (- i)) else to_string (nat i))"

definition peek :: "Token list \<Rightarrow> nat \<Rightarrow> Token" where
  "peek ts c = (if c \<ge> length ts then mkToken T_EOF_TOKEN [] 0 0 else ts ! c)"

definition isAtEnd :: "Token list \<Rightarrow> nat \<Rightarrow> bool" where
  "isAtEnd ts c \<longleftrightarrow> ttype (peek ts c) = T_EOF_TOKEN"

definition check :: "Token list \<Rightarrow> nat \<Rightarrow> TokenType \<Rightarrow> bool" where
  "check ts c t \<longleftrightarrow> (if isAtEnd ts c then False else ttype (peek ts c) = t)"

text \<open>
  \<open>previous\<close> is \<open>tokens[current - 1]\<close>. The parser calls it only after an \<open>advance\<close> that
  moved the index, so that \<open>current - 1\<close> is an index of the vector.
\<close>

definition previous :: "Token list \<Rightarrow> nat \<Rightarrow> Token" where
  "previous ts c = ts ! (c - 1)"

text \<open>\<open>advance\<close> returns the new index; its token is \<open>previous\<close> at that index.\<close>

definition advance :: "Token list \<Rightarrow> nat \<Rightarrow> nat" where
  "advance ts c = (if \<not> isAtEnd ts c then c + 1 else c)"

definition consume :: "TokenType \<Rightarrow> string \<Rightarrow> Token list \<Rightarrow> nat \<Rightarrow> Token parsing" where
  "consume t message ts c =
     (if check ts c t then ok (previous ts (advance ts c)) (advance ts c)
      else throw (message @ '' at line '' @ to_string_int (tline (peek ts c))))"

text \<open>
  \<open>parsePrimary\<close> applies \<open>std::stod\<close> to the text of a number token. That function is
  library code: it throws \<open>std::invalid_argument\<close> when the text starts with no number and
  \<open>std::out_of_range\<close> when the number does not fit a \<open>double\<close>, and where exactly it does
  so, and with which \<open>what()\<close>, depends on the library. The parser therefore takes the
  behaviour of the library as the argument \<open>lib\<close>: \<open>lib v\<close> is \<open>None\<close> when the library
  converts \<open>v\<close> and \<open>Some w\<close> when it throws an exception with \<open>what()\<close> equal to \<open>w\<close>.
  One fact holds of every library and is built in. A text of at most 37 characters that begins
  with a digit and holds only digits and points is converted: the decimal numeral at its
  front is below ten to the power 37 and, unless it is zero, not below ten to the power
  -35, inside the range that
  the language standard demands of \<open>double\<close>.
\<close>

definition shortDecimal :: "string \<Rightarrow> bool" where
  "shortDecimal v \<longleftrightarrow>
     v \<noteq> [] \<and> isdigit (hd v) \<and> list_all (\<lambda>ch. isdigit ch \<or> ch = CHR ''.'') v \<and> length v \<le> 37"

definition stod :: "(string \<Rightarrow> string option) \<Rightarrow> string \<Rightarrow> string option" where
  "stod lib v = (if shortDecimal v then None else lib v)"

text \<open>
  \<open>match(t)\<close> is written \<open>check ts c t\<close> followed by \<open>advance ts c\<close> in the branch taken.
  The \<open>while\<close> and \<open>do\<close> loops of the parser are functions of their own:
  \<open>parseBlock\<close> is the loop that collects statements up to a closing brace,
  \<open>parseParams\<close> the loop over parameter names, \<open>parseExpressionList\<close> the loop over
  call arguments and over array elements, \<open>parseMembers\<close> the loop over the members of an
  object literal, \<open>parseProgram\<close> the loop of \<open>parse\<close>, and each binary level and
  \<open>parsePostfix\<close> has its loop.

  The functions of the parser call one another in a cycle. The record \<open>Parser\<close> has one
  field for each of them; \<open>parseStatement_body this\<close> is the body of \<open>parseStatement\<close>,
  with every call \<open>f(...)\<close> of the source made through the object \<open>this\<close>. The object
  \<open>parserAt lib n\<close> answers calls nested up to depth \<open>n\<close> and gives \<open>None\<close> below that.
\<close>

record Parser =
  parseProgram :: "Token list \<Rightarrow> nat \<Rightarrow> Statement list \<Rightarrow> Statement list parsing"
  parseStatement :: "Token list \<Rightarrow> nat \<Rightarrow> Statement option parsing"
  parseBlock :: "Token list \<Rightarrow> nat \<Rightarrow> Statement list \<Rightarrow> Statement list parsing"
  parseVariableDeclaration :: "Token list \<Rightarrow> nat \<Rightarrow> Statement parsing"
  parseFunctionDeclaration :: "Token list \<Rightarrow> nat \<Rightarrow> Statement parsing"
  parseParams :: "Token list \<Rightarrow> nat \<Rightarrow> string list \<Rightarrow> string list parsing"
  parseIfStatement :: "Token list \<Rightarrow> nat \<Rightarrow> Statement parsing"
  parseLoopStatement :: "Token list \<Rightarrow> nat \<Rightarrow> Statement parsing"
  parseReturnStatement :: "Token list \<Rightarrow> nat \<Rightarrow> Statement parsing"
  parseExpressionStatement :: "Token list \<Rightarrow> nat \<Rightarrow> Statement parsing"
  parseExpression :: "Token list \<Rightarrow> nat \<Rightarrow> Expression parsing"
  parseAssignment :: "Token list \<Rightarrow> nat \<Rightarrow> Expression parsing"
  parseLogicalOr :: "Token list \<Rightarrow> nat \<Rightarrow> Expression parsing"
  parseLogicalOrLoop :: "Token list \<Rightarrow> nat \<Rightarrow> Expression \<Rightarrow> Expression parsing"
  parseLogicalAnd :: "Token list \<Rightarrow> nat \<Rightarrow> Expression parsing"
  parseLogicalAndLoop :: "Token list \<Rightarrow> nat \<Rightarrow> Expression \<Rightarrow> Expression parsing"
  parseEquality :: "Token list \<Rightarrow> nat \<Rightarrow> Expression parsing"
  parseEqualityLoop :: "Token list \<Rightarrow> nat \<Rightarrow> Expression \<Rightarrow> Expression parsing"
  parseComparison :: "Token list \<Rightarrow> nat \<Rightarrow> Expression parsing"
  parseComparisonLoop :: "Token list \<Rightarrow> nat \<Rightarrow> Expression \<Rightarrow> Expression parsing"
  parseTerm :: "Token list \<Rightarrow> nat \<Rightarrow> Expression parsing"
  parseTermLoop :: "Token list \<Rightarrow> nat \<Rightarrow> Expression \<Rightarrow> Expression parsing"
  parseFactor :: "Token list \<Rightarrow> nat \<Rightarrow> Expression parsing"
  parseFactorLoop :: "Token list \<Rightarrow> nat \<Rightarrow> Expression \<Rightarrow> Expression parsing"
  parseUnary :: "Token list \<Rightarrow> nat \<Rightarrow> Expression parsing"
  parsePostfix :: "Token list \<Rightarrow> nat \<Rightarrow> Expression parsing"
  parsePostfixLoop :: "Token list \<Rightarrow> nat \<Rightarrow> Expression \<Rightarrow> Expression parsing"
  parseExpressionList :: "Token list \<Rightarrow> nat \<Rightarrow> Expression list \<Rightarrow> Expression list parsing"
  parseMembers :: "Token list \<Rightarrow> nat \<Rightarrow> (string \<times> Expression) list \<Rightarrow> (string \<times> Expression) list parsing"
  parsePrimary :: "Token list \<Rightarrow> nat \<Rightarrow> Expression parsing"

definition parseProgram_body :: "Parser \<Rightarrow> Token list \<Rightarrow> nat \<Rightarrow> Statement list \<Rightarrow> Statement list parsing" where
  "parseProgram_body this ts c acc =
     (if \<not> isAtEnd ts c then
        (if ttype (peek ts c) = T_EOF_TOKEN then ok acc c
         else andThen (parseStatement this ts c) (\<lambda>stmt c.
                parseProgram this ts c (case stmt of Some s \<Rightarrow> acc @ [s] | None \<Rightarrow> acc)))
      else ok acc c)"

definition parseStatement_body :: "Parser \<Rightarrow> Token list \<Rightarrow> nat \<Rightarrow> Statement option parsing" where
  "parseStatement_body this ts c =
     (if check ts c T_BANAO then
        andThen (parseVariableDeclaration this ts (advance ts c)) (\<lambda>s c. ok (Some s) c)
      else if check ts c T_KAAM then
        andThen (parseFunctionDeclaration this ts (advance ts c)) (\<lambda>s c. ok (Some s) c)
      else if check ts c T_AGAR then
        andThen (parseIfStatement this ts (advance ts c)) (\<lambda>s c. ok (Some s) c)
      else if check ts c T_DAURA then
        andThen (parseLoopStatement this ts (advance ts c)) (\<lambda>s c. ok (Some s) c)
      else if check ts c T_WAPAS then
        andThen (parseReturnStatement this ts (advance ts c)) (\<lambda>s c. ok (Some s) c)
      else if check ts c T_LBRACE then
        andThen (consume T_LBRACE (''Expected '' @ [CHR 0x27] @ ''{'' @ [CHR 0x27]) ts c) (\<lambda>_ c.
        andThen (parseBlock this ts c []) (\<lambda>stmts c.
        andThen (consume T_RBRACE (''Expected '' @ [CHR 0x27] @ ''}'' @ [CHR 0x27]) ts c) (\<lambda>_ c.
        ok None c)))
      else andThen (parseExpressionStatement this ts c) (\<lambda>s c. ok (Some s) c))"

definition parseBlock_body :: "Parser \<Rightarrow> Token list \<Rightarrow> nat \<Rightarrow> Statement list \<Rightarrow> Statement list parsing" where
  "parseBlock_body this ts c acc =
     (if \<not> check ts c T_RBRACE \<and> \<not> isAtEnd ts c then
        andThen (parseStatement this ts c) (\<lambda>stmt c.
          parseBlock this ts c (case stmt of Some s \<Rightarrow> acc @ [s] | None \<Rightarrow> acc))
      else ok acc c)"

definition parseVariableDeclaration_body :: "Parser \<Rightarrow> Token list \<Rightarrow> nat \<Rightarrow> Statement parsing" where
  "parseVariableDeclaration_body this ts c =
     andThen (consume T_IDENTIFIER ''Expected identifier'' ts c) (\<lambda>nameToken c.
     andThen (if check ts c T_ASSIGN
              then andThen (parseExpression this ts (advance ts c)) (\<lambda>e c. ok (Some e) c)
              else ok None c) (\<lambda>initializer c.
     andThen (consume T_SEMICOLON
                (''Expected '' @ [CHR 0x27] @ '';'' @ [CHR 0x27] @ '' after variable declaration'')
                ts c) (\<lambda>_ c.
     ok (VariableDeclaration (tvalue nameToken) initializer) c)))"

definition parseFunctionDeclaration_body :: "Parser \<Rightarrow> Token list \<Rightarrow> nat \<Rightarrow> Statement parsing" where
  "parseFunctionDeclaration_body this ts c =
     andThen (consume T_IDENTIFIER ''Expected function name'' ts c) (\<lambda>nameToken c.
     andThen (consume T_LPAREN
                (''Expected '' @ [CHR 0x27] @ ''('' @ [CHR 0x27] @ '' after function name'')
                ts c) (\<lambda>_ c.
     andThen (if \<not> check ts c T_RPAREN then parseParams this ts c [] else ok [] c) (\<lambda>params c.
     andThen (consume T_RPAREN
                (''Expected '' @ [CHR 0x27] @ '')'' @ [CHR 0x27] @ '' after parameters'')
                ts c) (\<lambda>_ c.
     andThen (consume T_LBRACE
                (''Expected '' @ [CHR 0x27] @ ''{'' @ [CHR 0x27] @ '' before function body'')
                ts c) (\<lambda>_ c.
     andThen (parseBlock this ts c []) (\<lambda>body c.
     andThen (consume T_RBRACE
                (''Expected '' @ [CHR 0x27] @ ''}'' @ [CHR 0x27] @ '' after function body'')
                ts c) (\<lambda>_ c.
     ok (FunctionDeclaration (tvalue nameToken) params body) c)))))))"

definition parseParams_body :: "Parser \<Rightarrow> Token list \<Rightarrow> nat \<Rightarrow> string list \<Rightarrow> string list parsing" where
  "parseParams_body this ts c acc =
     andThen (consume T_IDENTIFIER ''Expected parameter name'' ts c) (\<lambda>param c.
       if check ts c T_COMMA then parseParams this ts (advance ts c) (acc @ [tvalue param])
       else ok (acc @ [tvalue param]) c)"

definition parseIfStatement_body :: "Parser \<Rightarrow> Token list \<Rightarrow> nat \<Rightarrow> Statement parsing" where
  "parseIfStatement_body this ts c =
     andThen (consume T_LPAREN
                (''Expected '' @ [CHR 0x27] @ ''('' @ [CHR 0x27] @ '' after '' @ [CHR 0x27]
                 @ ''agar'' @ [CHR 0x27]) ts c) (\<lambda>_ c.
     andThen (parseExpression this ts c) (\<lambda>condition c.
     andThen (consume T_RPAREN
                (''Expected '' @ [CHR 0x27] @ '')'' @ [CHR 0x27] @ '' after if condition'')
                ts c) (\<lambda>_ c.
     andThen (consume T_LBRACE
                (''Expected '' @ [CHR 0x27] @ ''{'' @ [CHR 0x27] @ '' before if body'')
                ts c) (\<lambda>_ c.
     andThen (parseBlock this ts c []) (\<lambda>thenBranch c.
     andThen (consume T_RBRACE
                (''Expected '' @ [CHR 0x27] @ ''}'' @ [CHR 0x27] @ '' after if body'')
                ts c) (\<lambda>_ c.
     if check ts c T_WARNAH then
       andThen (consume T_LBRACE
                  (''Expected '' @ [CHR 0x27] @ ''{'' @ [CHR 0x27] @ '' before else body'')
                  ts (advance ts c)) (\<lambda>_ c.
       andThen (parseBlock this ts c []) (\<lambda>elseBranch c.
       andThen (consume T_RBRACE
                  (''Expected '' @ [CHR 0x27] @ ''}'' @ [CHR 0x27] @ '' after else body'')
                  ts c) (\<lambda>_ c.
       ok (IfStatement condition thenBranch elseBranch) c)))
     else ok (IfStatement condition thenBranch []) c))))))"

definition parseLoopStatement_body :: "Parser \<Rightarrow> Token list \<Rightarrow> nat \<Rightarrow> Statement parsing" where
  "parseLoopStatement_body this ts c =
     andThen (consume T_LPAREN
                (''Expected '' @ [CHR 0x27] @ ''('' @ [CHR 0x27] @ '' after '' @ [CHR 0x27]
                 @ ''daura'' @ [CHR 0x27]) ts c) (\<lambda>_ c.
     andThen (parseExpression this ts c) (\<lambda>condition c.
     andThen (consume T_RPAREN
                (''Expected '' @ [CHR 0x27] @ '')'' @ [CHR 0x27] @ '' after loop condition'')
                ts c) (\<lambda>_ c.
     andThen (consume T_LBRACE
                (''Expected '' @ [CHR 0x27] @ ''{'' @ [CHR 0x27] @ '' before loop body'')
                ts c) (\<lambda>_ c.
     andThen (parseBlock this ts c []) (\<lambda>body c.
     andThen (consume T_RBRACE
                (''Expected '' @ [CHR 0x27] @ ''}'' @ [CHR 0x27] @ '' after loop body'')
                ts c) (\<lambda>_ c.
     ok (LoopStatement condition body) c))))))"

definition parseReturnStatement_body :: "Parser \<Rightarrow> Token list \<Rightarrow> nat \<Rightarrow> Statement parsing" where
  "parseReturnStatement_body this ts c =
     andThen (if \<not> check ts c T_SEMICOLON
              then andThen (parseExpression this ts c) (\<lambda>e c. ok (Some e) c)
              else ok None c) (\<lambda>v c.
     andThen (consume T_SEMICOLON
                (''Expected '' @ [CHR 0x27] @ '';'' @ [CHR 0x27] @ '' after return statement'')
                ts c) (\<lambda>_ c.
     ok (ReturnStatement v) c))"

definition parseExpressionStatement_body :: "Parser \<Rightarrow> Token list \<Rightarrow> nat \<Rightarrow> Statement parsing" where
  "parseExpressionStatement_body this ts c =
     andThen (parseExpression this ts c) (\<lambda>expr c.
     andThen (consume T_SEMICOLON
                (''Expected '' @ [CHR 0x27] @ '';'' @ [CHR 0x27] @ '' after expression statement'')
                ts c) (\<lambda>_ c.
     ok (ExpressionStatement expr) c))"

definition parseExpression_body :: "Parser \<Rightarrow> Token list \<Rightarrow> nat \<Rightarrow> Expression parsing" where
  "parseExpression_body this ts c =
     parseAssignment this ts c"

definition parseAssignment_body :: "Parser \<Rightarrow> Token list \<Rightarrow> nat \<Rightarrow> Expression parsing" where
  "parseAssignment_body this ts c =
     andThen (parseLogicalOr this ts c) (\<lambda>expr c.
       if check ts c T_ASSIGN then
         (case expr of
            Identifier idName \<Rightarrow>
              andThen (parseAssignment this ts (advance ts c)) (\<lambda>v c. ok (Assignment idName v) c)
          | _ \<Rightarrow> throw ''Invalid assignment target'')
       else if check ts c T_PLUS_ASSIGN \<or> check ts c T_MINUS_ASSIGN
               \<or> check ts c T_STAR_ASSIGN \<or> check ts c T_SLASH_ASSIGN then
         (case expr of
            Identifier idName \<Rightarrow>
              andThen (parseAssignment this ts (advance ts c)) (\<lambda>v c'.
                ok (Assignment idName
                      (BinaryOp expr (butlast (tvalue (previous ts (advance ts c)))) v)) c')
          | _ \<Rightarrow> ok expr (advance ts c))
       else ok expr c)"

definition parseLogicalOr_body :: "Parser \<Rightarrow> Token list \<Rightarrow> nat \<Rightarrow> Expression parsing" where
  "parseLogicalOr_body this ts c =
     andThen (parseLogicalAnd this ts c) (\<lambda>left c. parseLogicalOrLoop this ts c left)"

definition parseLogicalOrLoop_body :: "Parser \<Rightarrow> Token list \<Rightarrow> nat \<Rightarrow> Expression \<Rightarrow> Expression parsing" where
  "parseLogicalOrLoop_body this ts c left =
     (if check ts c T_OR then
        andThen (parseLogicalAnd this ts (advance ts c)) (\<lambda>right c'.
          parseLogicalOrLoop this ts c' (BinaryOp left (tvalue (previous ts (advance ts c))) right))
      else ok left c)"

definition parseLogicalAnd_body :: "Parser \<Rightarrow> Token list \<Rightarrow> nat \<Rightarrow> Expression parsing" where
  "parseLogicalAnd_body this ts c =
     andThen (parseEquality this ts c) (\<lambda>left c. parseLogicalAndLoop this ts c left)"

definition parseLogicalAndLoop_body :: "Parser \<Rightarrow> Token list \<Rightarrow> nat \<Rightarrow> Expression \<Rightarrow> Expression parsing" where
  "parseLogicalAndLoop_body this ts c left =
     (if check ts c T_AND then
        andThen (parseEquality this ts (advance ts c)) (\<lambda>right c'.
          parseLogicalAndLoop this ts c' (BinaryOp left (tvalue (previous ts (advance ts c))) right))
      else ok left c)"

definition parseEquality_body :: "Parser \<Rightarrow> Token list \<Rightarrow> nat \<Rightarrow> Expression parsing" where
  "parseEquality_body this ts c =
     andThen (parseComparison this ts c) (\<lambda>left c. parseEqualityLoop this ts c left)"

definition parseEqualityLoop_body :: "Parser \<Rightarrow> Token list \<Rightarrow> nat \<Rightarrow> Expression \<Rightarrow> Expression parsing" where
  "parseEqualityLoop_body this ts c left =
     (if check ts c T_EQ \<or> check ts c T_NE then
        andThen (parseComparison this ts (advance ts c)) (\<lambda>right c'.
          parseEqualityLoop this ts c' (BinaryOp left (tvalue (previous ts (advance ts c))) right))
      else ok left c)"

definition parseComparison_body :: "Parser \<Rightarrow> Token list \<Rightarrow> nat \<Rightarrow> Expression parsing" where
  "parseComparison_body this ts c =
     andThen (parseTerm this ts c) (\<lambda>left c. parseComparisonLoop this ts c left)"

definition parseComparisonLoop_body :: "Parser \<Rightarrow> Token list \<Rightarrow> nat \<Rightarrow> Expression \<Rightarrow> Expression parsing" where
  "parseComparisonLoop_body this ts c left =
     (if check ts c T_LT \<or> check ts c T_LE \<or> check ts c T_GT \<or> check ts c T_GE then
        andThen (parseTerm this ts (advance ts c)) (\<lambda>right c'.
          parseComparisonLoop this ts c' (BinaryOp left (tvalue (previous ts (advance ts c))) right))
      else ok left c)"

definition parseTerm_body :: "Parser \<Rightarrow> Token list \<Rightarrow> nat \<Rightarrow> Expression parsing" where
  "parseTerm_body this ts c =
     andThen (parseFactor this ts c) (\<lambda>left c. parseTermLoop this ts c left)"

definition parseTermLoop_body :: "Parser \<Rightarrow> Token list \<Rightarrow> nat \<Rightarrow> Expression \<Rightarrow> Expression parsing" where
  "parseTermLoop_body this ts c left =
     (if check ts c T_PLUS \<or> check ts c T_MINUS then
        andThen (parseFactor this ts (advance ts c)) (\<lambda>right c'.
          parseTermLoop this ts c' (BinaryOp left (tvalue (previous ts (advance ts c))) right))
      else ok left c)"

definition parseFactor_body :: "Parser \<Rightarrow> Token list \<Rightarrow> nat \<Rightarrow> Expression parsing" where
  "parseFactor_body this ts c =
     andThen (parseUnary this ts c) (\<lambda>left c. parseFactorLoop this ts c left)"

definition parseFactorLoop_body :: "Parser \<Rightarrow> Token list \<Rightarrow> nat \<Rightarrow> Expression \<Rightarrow> Expression parsing" where
  "parseFactorLoop_body this ts c left =
     (if check ts c T_STAR \<or> check ts c T_SLASH \<or> check ts c T_PERCENT then
        andThen (parseUnary this ts (advance ts c)) (\<lambda>right c'.
          parseFactorLoop this ts c' (BinaryOp left (tvalue (previous ts (advance ts c))) right))
      else ok left c)"

definition parseUnary_body :: "Parser \<Rightarrow> Token list \<Rightarrow> nat \<Rightarrow> Expression parsing" where
  "parseUnary_body this ts c =
     (if check ts c T_NOT \<or> check ts c T_MINUS then
        andThen (parseUnary this ts (advance ts c)) (\<lambda>expr c'.
          ok (UnaryOp (tvalue (previous ts (advance ts c))) expr) c')
      else parsePostfix this ts c)"

definition parsePostfix_body :: "Parser \<Rightarrow> Token list \<Rightarrow> nat \<Rightarrow> Expression parsing" where
  "parsePostfix_body this ts c =
     andThen (parsePrimary this ts c) (\<lambda>expr c. parsePostfixLoop this ts c expr)"

definition parsePostfixLoop_body :: "Parser \<Rightarrow> Token list \<Rightarrow> nat \<Rightarrow> Expression \<Rightarrow> Expression parsing" where
  "parsePostfixLoop_body this ts c expr =
     (if check ts c T_LBRACKET then
        andThen (parseExpression this ts (advance ts c)) (\<lambda>index c.
        andThen (consume T_RBRACKET
                   (''Expected '' @ [CHR 0x27] @ '']'' @ [CHR 0x27] @ '' after array index'')
                   ts c) (\<lambda>_ c.
        parsePostfixLoop this ts c
          (case expr of Identifier idName \<Rightarrow> ArrayAccess idName index | _ \<Rightarrow> expr)))
      else
        (case expr of
           Identifier idName \<Rightarrow>
             if check ts c T_LPAREN then
               andThen (if \<not> check ts (advance ts c) T_RPAREN
                        then parseExpressionList this ts (advance ts c) []
                        else ok [] (advance ts c)) (\<lambda>args c.
               andThen (consume T_RPAREN
                          (''Expected '' @ [CHR 0x27] @ '')'' @ [CHR 0x27]
                           @ '' after function arguments'') ts c) (\<lambda>_ c.
               parsePostfixLoop this ts c (FunctionCall idName args)))
             else ok expr c
         | _ \<Rightarrow> ok expr c))"

definition parseExpressionList_body :: "Parser \<Rightarrow> Token list \<Rightarrow> nat \<Rightarrow> Expression list \<Rightarrow> Expression list parsing" where
  "parseExpressionList_body this ts c acc =
     andThen (parseExpression this ts c) (\<lambda>e c.
       if check ts c T_COMMA then parseExpressionList this ts (advance ts c) (acc @ [e])
       else ok (acc @ [e]) c)"

definition parseMembers_body :: "Parser \<Rightarrow> Token list \<Rightarrow> nat \<Rightarrow> (string \<times> Expression) list \<Rightarrow> (string \<times> Expression) list parsing" where
  "parseMembers_body this ts c acc =
     andThen (consume T_IDENTIFIER ''Expected property name'' ts c) (\<lambda>key c.
     andThen (consume T_COLON
                (''Expected '' @ [CHR 0x27] @ '':'' @ [CHR 0x27] @ '' after property name'')
                ts c) (\<lambda>_ c.
     andThen (parseExpression this ts c) (\<lambda>v c.
       if check ts c T_COMMA then parseMembers this ts (advance ts c) (acc @ [(tvalue key, v)])
       else ok (acc @ [(tvalue key, v)]) c)))"

definition parsePrimary_body ::
    "(string \<Rightarrow> string option) \<Rightarrow> Parser \<Rightarrow> Token list \<Rightarrow> nat \<Rightarrow> Expression parsing" where
  "parsePrimary_body lib this ts c =
     (if check ts c T_HAAN then ok (BooleanLiteral True) (advance ts c)
      else if check ts c T_NA then ok (BooleanLiteral False) (advance ts c)
      else if check ts c T_NUMBER then
        (case stod lib (tvalue (previous ts (advance ts c))) of
           None \<Rightarrow> ok (NumberLiteral (tvalue (previous ts (advance ts c)))) (advance ts c)
         | Some what \<Rightarrow> throw what)
      else if check ts c T_STRING then
        ok (StringLiteral (tvalue (previous ts (advance ts c)))) (advance ts c)
      else if check ts c T_IDENTIFIER then
        ok (Identifier (tvalue (previous ts (advance ts c)))) (advance ts c)
      else if check ts c T_DEKH then ok (Identifier ''dekh'') (advance ts c)
      else if check ts c T_LOU then ok (Identifier ''lou'') (advance ts c)
      else if check ts c T_BAND then ok (Identifier ''band'') (advance ts c)
      else if check ts c T_LBRACKET then
        andThen (if \<not> check ts (advance ts c) T_RBRACKET
                 then parseExpressionList this ts (advance ts c) []
                 else ok [] (advance ts c)) (\<lambda>elements c.
        andThen (consume T_RBRACKET
                   (''Expected '' @ [CHR 0x27] @ '']'' @ [CHR 0x27] @ '' after array elements'')
                   ts c) (\<lambda>_ c.
        ok (ArrayLiteral elements) c))
      else if check ts c T_LBRACE then
        andThen (if \<not> check ts (advance ts c) T_RBRACE
                 then parseMembers this ts (advance ts c) []
                 else ok [] (advance ts c)) (\<lambda>members c.
        andThen (consume T_RBRACE
                   (''Expected '' @ [CHR 0x27] @ ''}'' @ [CHR 0x27] @ '' after object properties'')
                   ts c) (\<lambda>_ c.
        ok (ObjectLiteral members) c))
      else if check ts c T_LPAREN then
        andThen (parseExpression this ts (advance ts c)) (\<lambda>expr c.
        andThen (consume T_RPAREN
                   (''Expected '' @ [CHR 0x27] @ '')'' @ [CHR 0x27] @ '' after expression'')
                   ts c) (\<lambda>_ c.
        ok expr c))
      else throw (''Expected expression at token: '' @ tvalue (peek ts c)))"

primrec parserAt :: "(string \<Rightarrow> string option) \<Rightarrow> nat \<Rightarrow> Parser" where
  "parserAt lib 0 =
     \<lparr>parseProgram = (\<lambda>_ _ _. None),
        parseStatement = (\<lambda>_ _. None),
        parseBlock = (\<lambda>_ _ _. None),
        parseVariableDeclaration = (\<lambda>_ _. None),
        parseFunctionDeclaration = (\<lambda>_ _. None),
        parseParams = (\<lambda>_ _ _. None),
        parseIfStatement = (\<lambda>_ _. None),
        parseLoopStatement = (\<lambda>_ _. None),
        parseReturnStatement = (\<lambda>_ _. None),
        parseExpressionStatement = (\<lambda>_ _. None),
        parseExpression = (\<lambda>_ _. None),
        parseAssignment = (\<lambda>_ _. None),
        parseLogicalOr = (\<lambda>_ _. None),
        parseLogicalOrLoop = (\<lambda>_ _ _. None),
        parseLogicalAnd = (\<lambda>_ _. None),
        parseLogicalAndLoop = (\<lambda>_ _ _. None),
        parseEquality = (\<lambda>_ _. None),
        parseEqualityLoop = (\<lambda>_ _ _. None),
        parseComparison = (\<lambda>_ _. None),
        parseComparisonLoop = (\<lambda>_ _ _. None),
        parseTerm = (\<lambda>_ _. None),
        parseTermLoop = (\<lambda>_ _ _. None),
        parseFactor = (\<lambda>_ _. None),
        parseFactorLoop = (\<lambda>_ _ _. None),
        parseUnary = (\<lambda>_ _. None),
        parsePostfix = (\<lambda>_ _. None),
        parsePostfixLoop = (\<lambda>_ _ _. None),
        parseExpressionList = (\<lambda>_ _ _. None),
        parseMembers = (\<lambda>_ _ _. None),
        parsePrimary = (\<lambda>_ _. None)\<rparr>"
| "parserAt lib (Suc n) =
     (let this = parserAt lib n in
      \<lparr>parseProgram = parseProgram_body this,
        parseStatement = parseStatement_body this,
        parseBlock = parseBlock_body this,
        parseVariableDeclaration = parseVariableDeclaration_body this,
        parseFunctionDeclaration = parseFunctionDeclaration_body this,
        parseParams = parseParams_body this,
        parseIfStatement = parseIfStatement_body this,
        parseLoopStatement = parseLoopStatement_body this,
        parseReturnStatement = parseReturnStatement_body this,
        parseExpressionStatement = parseExpressionStatement_body this,
        parseExpression = parseExpression_body this,
        parseAssignment = parseAssignment_body this,
        parseLogicalOr = parseLogicalOr_body this,
        parseLogicalOrLoop = parseLogicalOrLoop_body this,
        parseLogicalAnd = parseLogicalAnd_body this,
        parseLogicalAndLoop = parseLogicalAndLoop_body this,
        parseEquality = parseEquality_body this,
        parseEqualityLoop = parseEqualityLoop_body this,
        parseComparison = parseComparison_body this,
        parseComparisonLoop = parseComparisonLoop_body this,
        parseTerm = parseTerm_body this,
        parseTermLoop = parseTermLoop_body this,
        parseFactor = parseFactor_body this,
        parseFactorLoop = parseFactorLoop_body this,
        parseUnary = parseUnary_body this,
        parsePostfix = parsePostfix_body this,
        parsePostfixLoop = parsePostfixLoop_body this,
        parseExpressionList = parseExpressionList_body this,
        parseMembers = parseMembers_body this,
        parsePrimary = parsePrimary_body lib this\<rparr>)"

definition parse ::
    "(string \<Rightarrow> string option) \<Rightarrow> nat \<Rightarrow> Token list \<Rightarrow> (string + Program) option" where
  "parse lib fuel ts =
     (case parseProgram (parserAt lib fuel) ts 0 [] of
        None \<Rightarrow> None
      | Some (Inl msg) \<Rightarrow> Some (Inl msg)
      | Some (Inr (program, c)) \<Rightarrow> Some (Inr program))"

section \<open>Semantic analyzer\<close>

text \<open>The apostrophe that the diagnostics put around names.\<close>

definition q :: string where
  "q = [CHR 0x27]"

record SemanticAnalyzer =
  symbolTable :: SymbolTable
  errors :: "string list"
  currentReturnType :: DataType
  inFunction :: bool

definition newSemanticAnalyzer :: SemanticAnalyzer where
  "newSemanticAnalyzer =
     \<lparr>symbolTable = newSymbolTable, errors = [], currentReturnType = VOID, inFunction = False\<rparr>"

definition pushError :: "string \<Rightarrow> SemanticAnalyzer \<Rightarrow> SemanticAnalyzer" where
  "pushError e a = a\<lparr>errors := errors a @ [e]\<rparr>"

text \<open>
  The part of \<open>analyzeBinaryOp\<close> after the two operands have been analyzed: the checks
  of the operand types and the type of the result.
\<close>

definition checkBinaryOp ::
    "string \<Rightarrow> DataType \<Rightarrow> DataType \<Rightarrow> SemanticAnalyzer \<Rightarrow> DataType \<times> SemanticAnalyzer" where
  "checkBinaryOp op leftType rightType a =
     (if op = ''+'' \<or> op = ''-'' \<or> op = ''*'' \<or> op = ''/'' \<or> op = ''%'' then
        (let a1 = (if leftType \<noteq> NUMBER \<and> leftType \<noteq> UNKNOWN \<and> leftType \<noteq> VOID
                   then pushError (''ERROR: Left operand of '' @ q @ op @ q @ '' must be number'') a
                   else a);
             a2 = (if rightType \<noteq> NUMBER \<and> rightType \<noteq> UNKNOWN \<and> rightType \<noteq> VOID
                   then pushError (''ERROR: Right operand of '' @ q @ op @ q @ '' must be number'') a1
                   else a1)
         in (NUMBER, a2))
      else if op = ''<'' \<or> op = ''<='' \<or> op = ''>'' \<or> op = ''>='' then
        (let a1 = (if leftType \<noteq> NUMBER \<and> leftType \<noteq> UNKNOWN
                   then pushError (''ERROR: Left operand of '' @ q @ op @ q @ '' must be number'') a
                   else a);
             a2 = (if rightType \<noteq> NUMBER \<and> rightType \<noteq> UNKNOWN
                   then pushError (''ERROR: Right operand of '' @ q @ op @ q @ '' must be number'') a1
                   else a1)
         in (BOOLEAN, a2))
      else if op = ''=='' \<or> op = ''!='' then (BOOLEAN, a)
      else if op = ''&&'' \<or> op = ''||'' then
        (let a1 = (if leftType \<noteq> BOOLEAN \<and> leftType \<noteq> UNKNOWN
                   then pushError (''ERROR: Left operand of '' @ q @ op @ q @ '' must be boolean'') a
                   else a);
             a2 = (if rightType \<noteq> BOOLEAN \<and> rightType \<noteq> UNKNOWN
                   then pushError (''ERROR: Right operand of '' @ q @ op @ q @ '' must be boolean'') a1
                   else a1)
         in (BOOLEAN, a2))
      else (UNKNOWN, a))"

text \<open>The part of \<open>analyzeUnaryOp\<close> after the operand has been analyzed.\<close>

definition checkUnaryOp :: "string \<Rightarrow> DataType \<Rightarrow> SemanticAnalyzer \<Rightarrow> DataType \<times> SemanticAnalyzer" where
  "checkUnaryOp op operandType a =
     (if op = ''-'' then
        (NUMBER, if operandType \<noteq> NUMBER \<and> operandType \<noteq> UNKNOWN
                 then pushError (''ERROR: Operand of '' @ q @ ''-'' @ q @ '' must be number'') a
                 else a)
      else if op = ''!'' then
        (BOOLEAN, if operandType \<noteq> BOOLEAN \<and> operandType \<noteq> UNKNOWN
                  then pushError (''ERROR: Operand of '' @ q @ ''!'' @ q @ '' must be boolean'') a
                  else a)
      else (UNKNOWN, a))"

text \<open>
  The part of \<open>analyzeAssignment\<close> after the value has been analyzed: \<open>symb\<close> (\<open>sym\<close> in the source) is the
  symbol that the lookup found before the value was analyzed.
\<close>

definition checkAssignment ::
    "string \<Rightarrow> Symbol \<Rightarrow> DataType \<Rightarrow> SemanticAnalyzer \<Rightarrow> DataType \<times> SemanticAnalyzer" where
  "checkAssignment n symb valueType a =
     (let a1 = (if type symb \<noteq> UNKNOWN \<and> valueType \<noteq> UNKNOWN \<and> type symb \<noteq> valueType
                then pushError (''ERROR: Type mismatch in assignment to '' @ q @ n @ q
                       @ '': expected '' @ dataTypeToString (type symb)
                       @ '', got '' @ dataTypeToString valueType) a
                else a)
      in (valueType, a1\<lparr>symbolTable := snd (update n (symbolTable a1))\<rparr>))"

text \<open>The check of the indexed symbol in the \<open>ArrayAccess\<close> branch of \<open>analyzeExpression\<close>.\<close>

definition checkIndexable :: "string \<Rightarrow> Symbol \<Rightarrow> SemanticAnalyzer \<Rightarrow> SemanticAnalyzer" where
  "checkIndexable n symb a =
     (if type symb \<noteq> ARRAY \<and> type symb \<noteq> UNKNOWN
      then pushError (''ERROR: Cannot index non-array type '' @ q @ n @ q) a
      else a)"

text \<open>
  The comparison of the number of arguments of a call with the number of parameters of the
  symbol, made for a function that has no rule of its own in \<open>analyzeFunctionCall\<close>.
\<close>

definition checkArgumentCount ::
    "string \<Rightarrow> Symbol \<Rightarrow> 'e list \<Rightarrow> SemanticAnalyzer \<Rightarrow> SemanticAnalyzer" where
  "checkArgumentCount n funcSym args a =
     (if length args \<noteq> length (paramTypes funcSym)
      then pushError (''ERROR: Function '' @ q @ n @ q @ '' expects ''
             @ to_string (length (paramTypes funcSym)) @ '' arguments, got ''
             @ to_string (length args)) a
      else a)"

text \<open>
  \<open>analyzeExpression\<close> with \<open>analyzeBinaryOp\<close>, \<open>analyzeUnaryOp\<close>, \<open>analyzeAssignment\<close>
  and \<open>analyzeFunctionCall\<close> in the equation of their node. It returns the synthesized
  type and the analyzer after the call. \<open>analyzeEach\<close> is the loop
  \<open>for (auto& arg : args) analyzeExpression(arg.get())\<close>, and \<open>analyzeNumberArgs\<close> the
  loop over the two arguments of \<open>pow\<close>, \<open>max\<close> and \<open>min\<close>. No branch of the traversal
  throws, so the \<open>catch\<close> of \<open>analyze\<close> has nothing to model.
\<close>

fun analyzeExpression :: "Expression \<Rightarrow> SemanticAnalyzer \<Rightarrow> DataType \<times> SemanticAnalyzer"
and analyzeEach :: "Expression list \<Rightarrow> SemanticAnalyzer \<Rightarrow> SemanticAnalyzer"
and analyzeNumberArgs :: "string \<Rightarrow> Expression list \<Rightarrow> SemanticAnalyzer \<Rightarrow> SemanticAnalyzer"
where
  "analyzeExpression (NumberLiteral v) a = (NUMBER, a)"
| "analyzeExpression (StringLiteral v) a = (STRING, a)"
| "analyzeExpression (BooleanLiteral v) a = (BOOLEAN, a)"
| "analyzeExpression (Identifier n) a =
     (case lookup n (symbolTable a) of
        Some symb \<Rightarrow> (type symb, a)
      | None \<Rightarrow> (UNKNOWN, pushError (''ERROR: Undefined variable '' @ q @ n @ q) a))"
| "analyzeExpression (BinaryOp l op r) a =
     (case analyzeExpression l a of (leftType, a1) \<Rightarrow>
        (case analyzeExpression r a1 of (rightType, a2) \<Rightarrow>
           checkBinaryOp op leftType rightType a2))"
| "analyzeExpression (UnaryOp op e) a =
     (case analyzeExpression e a of (operandType, a1) \<Rightarrow> checkUnaryOp op operandType a1)"
| "analyzeExpression (Assignment n v) a =
     (case lookup n (symbolTable a) of
        None \<Rightarrow> (UNKNOWN, pushError (''ERROR: Undefined variable '' @ q @ n @ q) a)
      | Some symb \<Rightarrow>
          (case analyzeExpression v a of (valueType, a1) \<Rightarrow> checkAssignment n symb valueType a1))"
| "analyzeExpression (FunctionCall n args) a =
     (case lookup n (symbolTable a) of
        None \<Rightarrow> (UNKNOWN, pushError (''ERROR: Undefined function '' @ q @ n @ q) a)
      | Some funcSym \<Rightarrow>
          if \<not> isFunction funcSym then
            (UNKNOWN, pushError (''ERROR: '' @ q @ n @ q @ '' is not a function'') a)
          else if n = ''dekh'' then (VOID, analyzeEach args a)
          else if n = ''lou'' then
            (NUMBER, case args of [] \<Rightarrow> a | x # _ \<Rightarrow> snd (analyzeExpression x a))
          else if n = ''nikal'' then
            (NUMBER,
             case args of
               [x] \<Rightarrow> snd (analyzeExpression x a)
             | _ \<Rightarrow> pushError (''ERROR: nikal() expects 1 argument, got ''
                               @ to_string (length args)) a)
          else if n = ''band'' then (VOID, a)
          else if n = ''abs'' \<or> n = ''sqrt'' \<or> n = ''round'' then
            (NUMBER,
             case args of
               [x] \<Rightarrow>
                 (case analyzeExpression x a of (argType, a1) \<Rightarrow>
                    if argType \<noteq> NUMBER \<and> argType \<noteq> UNKNOWN
                    then pushError (''ERROR: '' @ n @ ''() expects number argument'') a1
                    else a1)
             | _ \<Rightarrow> pushError (''ERROR: '' @ n @ ''() expects 1 argument'') a)
          else if n = ''pow'' \<or> n = ''max'' \<or> n = ''min'' then
            (NUMBER,
             if length args \<noteq> 2
             then pushError (''ERROR: '' @ n @ ''() expects 2 arguments'') a
             else analyzeNumberArgs n args a)
          else if n = ''random'' then (NUMBER, a)
          else (returnType funcSym, analyzeEach args (checkArgumentCount n funcSym args a)))"
| "analyzeExpression (ArrayLiteral es) a = (ARRAY, a)"
| "analyzeExpression (ObjectLiteral ms) a = (OBJECT, a)"
| "analyzeExpression (ArrayAccess n idx) a =
     (case lookup n (symbolTable a) of
        Some symb \<Rightarrow>
          (case analyzeExpression idx (checkIndexable n symb a) of (indexType, a2) \<Rightarrow>
             (UNKNOWN,
              if indexType \<noteq> NUMBER \<and> indexType \<noteq> UNKNOWN
              then pushError (''ERROR: Array index must be number, got ''
                     @ dataTypeToString indexType) a2
              else a2))
      | None \<Rightarrow> (UNKNOWN, pushError (''ERROR: Undefined array '' @ q @ n @ q) a))"
| "analyzeEach [] a = a"
| "analyzeEach (x # xs) a = analyzeEach xs (snd (analyzeExpression x a))"
| "analyzeNumberArgs n [] a = a"
| "analyzeNumberArgs n (x # xs) a =
     (case analyzeExpression x a of (argType, a1) \<Rightarrow>
        analyzeNumberArgs n xs
          (if argType \<noteq> NUMBER \<and> argType \<noteq> UNKNOWN
           then pushError (''ERROR: '' @ n @ ''() expects number arguments'') a1
           else a1))"

text \<open>
  The entry points of the source for single node kinds, as names for the equations above.
\<close>

definition analyzeBinaryOp ::
    "Expression \<Rightarrow> string \<Rightarrow> Expression \<Rightarrow> SemanticAnalyzer \<Rightarrow> DataType \<times> SemanticAnalyzer" where
  "analyzeBinaryOp l op r a = analyzeExpression (BinaryOp l op r) a"

definition analyzeAssignment ::
    "string \<Rightarrow> Expression \<Rightarrow> SemanticAnalyzer \<Rightarrow> DataType \<times> SemanticAnalyzer" where
  "analyzeAssignment n v a = analyzeExpression (Assignment n v) a"

definition analyzeFunctionCall ::
    "string \<Rightarrow> Expression list \<Rightarrow> SemanticAnalyzer \<Rightarrow> DataType \<times> SemanticAnalyzer" where
  "analyzeFunctionCall n args a = analyzeExpression (FunctionCall n args) a"

text \<open>
  The loop of \<open>analyzeFunctionDeclaration\<close> that defines the parameters; the flag that
  \<open>define\<close> returns is dropped, as in the source.
\<close>

fun defineParams :: "string list \<Rightarrow> SymbolTable \<Rightarrow> SymbolTable" where
  "defineParams [] scopes = scopes"
| "defineParams (p # ps) scopes = defineParams ps (snd (define_sym p UNKNOWN False True scopes))"

text \<open>The check of a condition shared by \<open>analyzeIfStatement\<close> and \<open>analyzeLoopStatement\<close>,
  which differ in the first word of the message.\<close>

definition checkCondition :: "string \<Rightarrow> DataType \<Rightarrow> SemanticAnalyzer \<Rightarrow> SemanticAnalyzer" where
  "checkCondition what condType a =
     (if condType \<noteq> BOOLEAN \<and> condType \<noteq> UNKNOWN \<and> condType \<noteq> VOID
      then pushError (''ERROR: '' @ what @ '' condition must be boolean, got ''
             @ dataTypeToString condType) a
      else a)"

fun analyzeStatement :: "Statement \<Rightarrow> SemanticAnalyzer \<Rightarrow> SemanticAnalyzer"
and analyzeStatements :: "Statement list \<Rightarrow> SemanticAnalyzer \<Rightarrow> SemanticAnalyzer"
where
  "analyzeStatement (VariableDeclaration n init) a =
     (case (case init of None \<Rightarrow> (UNKNOWN, a) | Some e \<Rightarrow> analyzeExpression e a) of
        (varType, a1) \<Rightarrow>
          (case define_sym n varType False True (symbolTable a1) of
             (fresh, scopes) \<Rightarrow>
               (if fresh then a1\<lparr>symbolTable := scopes\<rparr>
                else pushError (''ERROR: Variable '' @ q @ n @ q
                       @ '' already defined in current scope'') (a1\<lparr>symbolTable := scopes\<rparr>))))"
| "analyzeStatement (FunctionDeclaration n params body) a =
     (let a1 = a\<lparr>symbolTable :=
                  enterScope (addFunctionSignature n (replicate (length params) UNKNOWN) VOID
                                (symbolTable a))\<rparr>;
          prevInFunction = inFunction a1;
          prevReturnType = currentReturnType a1;
          a2 = a1\<lparr>inFunction := True, currentReturnType := UNKNOWN\<rparr>;
          a3 = a2\<lparr>symbolTable := defineParams params (symbolTable a2)\<rparr>;
          a4 = analyzeStatements body a3
      in a4\<lparr>inFunction := prevInFunction, currentReturnType := prevReturnType,
            symbolTable := exitScope (symbolTable a4)\<rparr>)"
| "analyzeStatement (IfStatement cond thenBranch elseBranch) a =
     (case analyzeExpression cond a of (condType, a1) \<Rightarrow>
        (let a2 = checkCondition ''If'' condType a1;
             a3 = analyzeStatements thenBranch (a2\<lparr>symbolTable := enterScope (symbolTable a2)\<rparr>);
             a4 = a3\<lparr>symbolTable := exitScope (symbolTable a3)\<rparr>
         in if elseBranch \<noteq> [] then
              (let a5 = analyzeStatements elseBranch
                          (a4\<lparr>symbolTable := enterScope (symbolTable a4)\<rparr>)
               in a5\<lparr>symbolTable := exitScope (symbolTable a5)\<rparr>)
            else a4))"
| "analyzeStatement (LoopStatement cond body) a =
     (case analyzeExpression cond a of (condType, a1) \<Rightarrow>
        (let a2 = checkCondition ''Loop'' condType a1;
             a3 = analyzeStatements body (a2\<lparr>symbolTable := enterScope (symbolTable a2)\<rparr>)
         in a3\<lparr>symbolTable := exitScope (symbolTable a3)\<rparr>))"
| "analyzeStatement (ReturnStatement v) a =
     (if \<not> inFunction a then pushError ''ERROR: Return statement outside function'' a
      else (case v of None \<Rightarrow> a | Some e \<Rightarrow> snd (analyzeExpression e a)))"
| "analyzeStatement (ExpressionStatement e) a = snd (analyzeExpression e a)"
| "analyzeStatements [] a = a"
| "analyzeStatements (s # ss) a = analyzeStatements ss (analyzeStatement s a)"

text \<open>
  \<open>analyze\<close> returns its flag and the analyzer, whose \<open>errors\<close> are what \<open>getErrors\<close>
  gives afterwards.
\<close>

definition analyze :: "Program \<Rightarrow> SemanticAnalyzer \<Rightarrow> bool \<times> SemanticAnalyzer" where
  "analyze program a =
     (let a1 = analyzeStatements program a
      in case lookup ''main'' (symbolTable a1) of
           None \<Rightarrow>
             (False, pushError (''ERROR: Main function '' @ q @ ''kaam main()'' @ q @ '' not found'') a1)
         | Some mainSym \<Rightarrow> (errors a1 = [], a1))"

section \<open>Notions used to state the properties\<close>

text \<open>
  \<open>approx r r'\<close>: the result \<open>r\<close> of a parsing function either ran out of fuel or is the
  result \<open>r'\<close>. \<open>parserBelow P Q\<close>: every function of the parser object \<open>P\<close> is related in
  this way to the same function of \<open>Q\<close>, on all arguments.
\<close>

definition approx :: "'a parsing \<Rightarrow> 'a parsing \<Rightarrow> bool" where
  "approx r r' \<longleftrightarrow> r = None \<or> r = r'"

definition parserBelow :: "Parser \<Rightarrow> Parser \<Rightarrow> bool" where
  "parserBelow P Q \<longleftrightarrow>
     (\<forall>ts c x. approx (parseProgram P ts c x) (parseProgram Q ts c x))
     \<and> (\<forall>ts c. approx (parseStatement P ts c) (parseStatement Q ts c))
     \<and> (\<forall>ts c x. approx (parseBlock P ts c x) (parseBlock Q ts c x))
     \<and> (\<forall>ts c. approx (parseVariableDeclaration P ts c) (parseVariableDeclaration Q ts c))
     \<and> (\<forall>ts c. approx (parseFunctionDeclaration P ts c) (parseFunctionDeclaration Q ts c))
     \<and> (\<forall>ts c x. approx (parseParams P ts c x) (parseParams Q ts c x))
     \<and> (\<forall>ts c. approx (parseIfStatement P ts c) (parseIfStatement Q ts c))
     \<and> (\<forall>ts c. approx (parseLoopStatement P ts c) (parseLoopStatement Q ts c))
     \<and> (\<forall>ts c. approx (parseReturnStatement P ts c) (parseReturnStatement Q ts c))
     \<and> (\<forall>ts c. approx (parseExpressionStatement P ts c) (parseExpressionStatement Q ts c))
     \<and> (\<forall>ts c. approx (parseExpression P ts c) (parseExpression Q ts c))
     \<and> (\<forall>ts c. approx (parseAssignment P ts c) (parseAssignment Q ts c))
     \<and> (\<forall>ts c. approx (parseLogicalOr P ts c) (parseLogicalOr Q ts c))
     \<and> (\<forall>ts c x. approx (parseLogicalOrLoop P ts c x) (parseLogicalOrLoop Q ts c x))
     \<and> (\<forall>ts c. approx (parseLogicalAnd P ts c) (parseLogicalAnd Q ts c))
     \<and> (\<forall>ts c x. approx (parseLogicalAndLoop P ts c x) (parseLogicalAndLoop Q ts c x))
     \<and> (\<forall>ts c. approx (parseEquality P ts c) (parseEquality Q ts c))
     \<and> (\<forall>ts c x. approx (parseEqualityLoop P ts c x) (parseEqualityLoop Q ts c x))
     \<and> (\<forall>ts c. approx (parseComparison P ts c) (parseComparison Q ts c))
     \<and> (\<forall>ts c x. approx (parseComparisonLoop P ts c x) (parseComparisonLoop Q ts c x))
     \<and> (\<forall>ts c. approx (parseTerm P ts c) (parseTerm Q ts c))
     \<and> (\<forall>ts c x. approx (parseTermLoop P ts c x) (parseTermLoop Q ts c x))
     \<and> (\<forall>ts c. approx (parseFactor P ts c) (parseFactor Q ts c))
     \<and> (\<forall>ts c x. approx (parseFactorLoop P ts c x) (parseFactorLoop Q ts c x))
     \<and> (\<forall>ts c. approx (parseUnary P ts c) (parseUnary Q ts c))
     \<and> (\<forall>ts c. approx (parsePostfix P ts c) (parsePostfix Q ts c))
     \<and> (\<forall>ts c x. approx (parsePostfixLoop P ts c x) (parsePostfixLoop Q ts c x))
     \<and> (\<forall>ts c x. approx (parseExpressionList P ts c x) (parseExpressionList Q ts c x))
     \<and> (\<forall>ts c x. approx (parseMembers P ts c x) (parseMembers Q ts c x))
     \<and> (\<forall>ts c. approx (parsePrimary P ts c) (parsePrimary Q ts c))"


text \<open>
  \<open>readsWithin l\<close>: every index at which the lexer \<open>l\<close> has evaluated \<open>source[...]\<close> so
  far is at most the length of the source text.
\<close>

definition readsWithin :: "Lexer \<Rightarrow> bool" where
  "readsWithin l \<longleftrightarrow> list_all (\<lambda>i. i \<le> length (source l)) (reads l)"

text \<open>
  \<open>lexerAfter n src\<close>: the lexer constructed on the text \<open>src\<close> after \<open>n\<close> calls of
  \<open>nextToken\<close>, so that \<open>nextToken (lexerAfter n src)\<close> is call number \<open>n + 1\<close>.
\<close>

primrec lexerAfter :: "nat \<Rightarrow> string \<Rightarrow> Lexer" where
  "lexerAfter 0 src = newLexer src"
| "lexerAfter (Suc n) src = snd (nextToken (lexerAfter n src))"

text \<open>
  \<open>addErrs es a\<close> is the analyzer \<open>a\<close> with the diagnostics \<open>es\<close> put in front of
  its own: it serves to say that the traversal only ever appends to \<open>errors\<close> and never
  reads them.
\<close>

definition addErrs :: "string list \<Rightarrow> SemanticAnalyzer \<Rightarrow> SemanticAnalyzer" where
  "addErrs es a = a\<lparr>errors := es @ errors a\<rparr>"


text \<open>
  A program with a recursive function, \<^verbatim>\<open>kaam fact(n) { wapas n * fact(n - 1); }\<close>
  followed by \<^verbatim>\<open>kaam main() { dekh(fact(5)); }\<close>, and the analyzer as it stands when
  the body of \<open>fact\<close> is entered.
\<close>

definition factBody :: SemanticAnalyzer where
  "factBody =
     newSemanticAnalyzer
       \<lparr>symbolTable :=
          defineParams [''n'']
            (enterScope (addFunctionSignature ''fact'' [UNKNOWN] VOID newSymbolTable)),
        inFunction := True, currentReturnType := UNKNOWN\<rparr>"

definition factProgram :: Program where
  "factProgram =
     [FunctionDeclaration ''fact'' [''n'']
        [ReturnStatement (Some
           (BinaryOp (Identifier ''n'') ''*''
              (FunctionCall ''fact'' [BinaryOp (Identifier ''n'') ''-'' (NumberLiteral ''1'')])))],
      FunctionDeclaration ''main'' []
        [ExpressionStatement (FunctionCall ''dekh'' [FunctionCall ''fact'' [NumberLiteral ''5'']])]]"


text \<open>The analyzer after \<^verbatim>\<open>banao x = 1;\<close> at the top level.\<close>

definition afterBanaoX :: SemanticAnalyzer where
  "afterBanaoX =
     analyzeStatement (VariableDeclaration ''x'' (Some (NumberLiteral ''1''))) newSemanticAnalyzer"


section \<open>Properties of the lexer\<close>

lemmas lex_eval =
  Let_def nextToken_def lookahead_def scanString_def scanNumber_def scanIdentifierOrKeyword_def
  keywordTable_def mkToken_def newLexer_def readAt_def charAt_def isspace_def isdigit_def
  isalpha_def isalnum_def skipWhitespaceAndComments.simps skipComment.simps
  scanStringLoop.simps scanNumberLoop.simps scanIdentifierLoop.simps
  tokenize_def tokenizeLoop.simps

text \<open>
  The look-ahead for a two-character operator is made without a comparison of the position
  with the length. On the source text \<^verbatim>\<open>+\<close>, of length 1, \<open>nextToken\<close> returns the token
  \<open>PLUS\<close> after it has evaluated \<open>source[1]\<close>: the last index read is not below the length,
  as it would be had the look-ahead been bounds-checked.
\<close>

theorem lookahead_not_bounds_checked:
  "length (source (newLexer ''+'')) = 1
   \<and> fst (nextToken (newLexer ''+'')) = mkToken T_PLUS ''+'' 1 1
   \<and> reads (snd (nextToken (newLexer ''+''))) = [0, 0, 1]
   \<and> \<not> last (reads (snd (nextToken (newLexer ''+'')))) < length (source (newLexer ''+''))"
  by (simp add: lex_eval)

subsection \<open>Reads in range, and the end of the input\<close>

lemma readsWithin_readAt:
  "readsWithin (readAt i l) \<longleftrightarrow> readsWithin l \<and> i \<le> length (source l)"
  by (simp add: readsWithin_def readAt_def)

lemma readsWithin_update [simp]:
  "readsWithin (l\<lparr>pos := p\<rparr>) = readsWithin l"
  "readsWithin (l\<lparr>line := n\<rparr>) = readsWithin l"
  "readsWithin (l\<lparr>column := m\<rparr>) = readsWithin l"
  by (simp_all add: readsWithin_def)

lemma readAt_fields [simp]:
  "source (readAt i l) = source l" "pos (readAt i l) = pos l"
  "line (readAt i l) = line l" "column (readAt i l) = column l"
  by (simp_all add: readAt_def)

lemma skipComment_reads: "readsWithin l \<Longrightarrow> readsWithin (skipComment l)"
proof (induction l rule: skipComment.induct)
  case (1 l)
  then show ?case
    by (subst skipComment.simps) (simp add: readsWithin_readAt)
qed

lemma skipComment_source: "source (skipComment l) = source l"
proof (induction l rule: skipComment.induct)
  case (1 l)
  then show ?case
    by (subst skipComment.simps) simp
qed

lemma skipWhitespaceAndComments_reads:
  "readsWithin l \<Longrightarrow> readsWithin (skipWhitespaceAndComments l)"
proof (induction l rule: skipWhitespaceAndComments.induct)
  case (1 l)
  then show ?case
    by (subst skipWhitespaceAndComments.simps)
       (auto simp: readsWithin_readAt skipComment_reads)
qed

lemma skipWhitespaceAndComments_source:
  "source (skipWhitespaceAndComments l) = source l"
proof (induction l rule: skipWhitespaceAndComments.induct)
  case (1 l)
  then show ?case
    by (subst skipWhitespaceAndComments.simps) (auto simp: skipComment_source)
qed

lemma skipWhitespaceAndComments_at_end:
  "length (source l) \<le> pos l \<Longrightarrow> skipWhitespaceAndComments l = l"
  by (subst skipWhitespaceAndComments.simps) simp

lemma scanStringLoop_reads:
  "readsWithin l \<Longrightarrow> readsWithin (snd (scanStringLoop qt v l))
     \<and> source (snd (scanStringLoop qt v l)) = source l"
proof (induction qt v l rule: scanStringLoop.induct)
  case (1 qt v l)
  then show ?case
    by (subst (1 2) scanStringLoop.simps) (auto simp: readsWithin_readAt)
qed

lemma scanNumberLoop_reads:
  "readsWithin l \<Longrightarrow> readsWithin (snd (scanNumberLoop v l))
     \<and> source (snd (scanNumberLoop v l)) = source l"
proof (induction v l rule: scanNumberLoop.induct)
  case (1 v l)
  then show ?case
    by (subst (1 2) scanNumberLoop.simps) (auto simp: readsWithin_readAt)
qed

lemma scanIdentifierLoop_reads:
  "readsWithin l \<Longrightarrow> readsWithin (snd (scanIdentifierLoop v l))
     \<and> source (snd (scanIdentifierLoop v l)) = source l"
proof (induction v l rule: scanIdentifierLoop.induct)
  case (1 v l)
  then show ?case
    by (subst (1 2) scanIdentifierLoop.simps) (auto simp: readsWithin_readAt)
qed

lemma scanString_reads:
  "readsWithin l \<Longrightarrow> readsWithin (snd (scanString qt l)) \<and> source (snd (scanString qt l)) = source l"
  using scanStringLoop_reads [of "l\<lparr>pos := pos l + 1, column := column l + 1\<rparr>" qt "[]"]
  by (auto simp: scanString_def Let_def split: prod.splits)

lemma scanNumber_reads:
  "readsWithin l \<Longrightarrow> readsWithin (snd (scanNumber l)) \<and> source (snd (scanNumber l)) = source l"
  using scanNumberLoop_reads [of l "[]"]
  by (auto simp: scanNumber_def Let_def split: prod.splits)

lemma scanIdentifierOrKeyword_reads:
  "readsWithin l \<Longrightarrow> readsWithin (snd (scanIdentifierOrKeyword l))
     \<and> source (snd (scanIdentifierOrKeyword l)) = source l"
  using scanIdentifierLoop_reads [of l "[]"]
  by (auto simp: scanIdentifierOrKeyword_def Let_def split: prod.splits option.splits)

lemma lookahead_reads:
  "readsWithin l \<Longrightarrow> pos l \<le> length (source l) \<Longrightarrow>
   readsWithin (snd (lookahead ch t2 v2 t1 v1 ln cl l))
   \<and> source (snd (lookahead ch t2 v2 t1 v1 ln cl l)) = source l"
  by (simp add: lookahead_def readsWithin_readAt)

text \<open>
  The other reads are in range. Whatever the source text, \<open>nextToken\<close> evaluates
  \<open>source[i]\<close> only for \<open>i\<close> up to the length of the text, where \<open>std::string\<close> still
  defines the result; it leaves the text as it is; and once the position has reached the
  length it returns the end-of-input token and changes nothing, call after call.
\<close>

lemma nextToken_reads_up_to_length:
  assumes "readsWithin l"
  shows "readsWithin (snd (nextToken l)) \<and> source (snd (nextToken l)) = source l"
proof -
  let ?k = "skipWhitespaceAndComments l"
  let ?k1 = "readAt (pos ?k) ?k"
  let ?k2 = "?k1\<lparr>pos := pos ?k1 + 1, column := column ?k1 + 1\<rparr>"
  have k: "readsWithin ?k" "source ?k = source l"
    using assms by (simp_all add: skipWhitespaceAndComments_reads skipWhitespaceAndComments_source)
  show ?thesis
  proof (cases "length (source l) \<le> pos ?k")
    case True
    with k show ?thesis by (simp add: nextToken_def Let_def)
  next
    case False
    with k have k1: "readsWithin ?k1" "source ?k1 = source l"
      by (simp_all add: readsWithin_readAt)
    from False k1 have k2: "readsWithin ?k2" "source ?k2 = source l" "pos ?k2 \<le> length (source ?k2)"
      by simp_all
    note s = scanString_reads [OF k1(1)] scanNumber_reads [OF k1(1)]
      scanIdentifierOrKeyword_reads [OF k1(1)] lookahead_reads [OF k2(1) k2(3)]
    from False k k1 k2 s show ?thesis
      by (simp add: nextToken_def Let_def)
  qed
qed

lemma nextToken_at_end:
  "length (source l) \<le> pos l \<Longrightarrow>
   nextToken l = (mkToken T_EOF_TOKEN [] (line l) (column l), l)"
  by (simp add: nextToken_def Let_def skipWhitespaceAndComments_at_end)

lemma nextToken_EOF_stays:
  assumes "ttype (fst (nextToken l)) = T_EOF_TOKEN"
  shows "nextToken (snd (nextToken l)) = (fst (nextToken l), snd (nextToken l))"
proof -
  let ?k = "skipWhitespaceAndComments l"
  have src: "source ?k = source l" by (rule skipWhitespaceAndComments_source)
  have "length (source l) \<le> pos ?k"
  proof (rule ccontr)
    assume "\<not> length (source l) \<le> pos ?k"
    then have "ttype (fst (nextToken l)) \<noteq> T_EOF_TOKEN"
      using src
      by (auto simp: nextToken_def Let_def scanString_def scanNumber_def
            scanIdentifierOrKeyword_def lookahead_def mkToken_def keywordTable_def
            split: prod.splits option.splits if_splits)
    with assms show False by simp
  qed
  then have "nextToken l = (mkToken T_EOF_TOKEN [] (line ?k) (column ?k), ?k)"
    using src by (simp add: nextToken_def Let_def)
  moreover from \<open>length (source l) \<le> pos ?k\<close> src
  have "nextToken ?k = (mkToken T_EOF_TOKEN [] (line ?k) (column ?k), ?k)"
    by (simp add: nextToken_at_end)
  ultimately show ?thesis by simp
qed

subsection \<open>Every call moves on or has reached the end\<close>

lemma skipComment_pos: "pos l \<le> pos (skipComment l)"
proof (induction l rule: skipComment.induct)
  case (1 l)
  show ?case
  proof (cases "pos l < length (source l) \<and> charAt (source l) (pos l) \<noteq> CHR 0x0A")
    case True
    with 1 show ?thesis
      by (subst skipComment.simps) simp
  next
    case False
    then show ?thesis
      by (subst skipComment.simps) auto
  qed
qed

lemma skipWhitespaceAndComments_pos: "pos l \<le> pos (skipWhitespaceAndComments l)"
proof (induction l rule: skipWhitespaceAndComments.induct)
  case (1 l)
  show ?case
    using 1 skipComment_pos [of "readAt (pos l + 1) (readAt (pos l) l)"]
    by (subst skipWhitespaceAndComments.simps) (auto simp: skipComment_source)
qed

lemma scanStringLoop_pos: "pos l \<le> pos (snd (scanStringLoop qt v l))"
proof (induction qt v l rule: scanStringLoop.induct)
  case (1 qt v l)
  show ?case
    using 1 by (subst scanStringLoop.simps) auto
qed

lemma scanNumberLoop_pos: "pos l \<le> pos (snd (scanNumberLoop v l))"
proof (induction v l rule: scanNumberLoop.induct)
  case (1 v l)
  show ?case
    using 1 by (subst scanNumberLoop.simps) auto
qed

lemma scanIdentifierLoop_pos: "pos l \<le> pos (snd (scanIdentifierLoop v l))"
proof (induction v l rule: scanIdentifierLoop.induct)
  case (1 v l)
  show ?case
    using 1 by (subst scanIdentifierLoop.simps) auto
qed

lemma scanString_pos: "pos l < pos (snd (scanString qt l))"
  using scanStringLoop_pos [of "l\<lparr>pos := pos l + 1, column := column l + 1\<rparr>" qt "[]"]
  by (auto simp: scanString_def Let_def split: prod.splits)

lemma scanNumber_pos:
  assumes "pos l < length (source l)" "isdigit (charAt (source l) (pos l))"
  shows "pos l < pos (snd (scanNumber l))"
proof -
  let ?k = "readAt (pos l) l\<lparr>pos := pos l + 1, column := column l + 1\<rparr>"
  from assms have "scanNumberLoop [] l = scanNumberLoop [charAt (source l) (pos l)] ?k"
    by (subst scanNumberLoop.simps) simp
  with scanNumberLoop_pos [of ?k "[charAt (source l) (pos l)]"] show ?thesis
    by (auto simp: scanNumber_def Let_def split: prod.splits)
qed

lemma scanIdentifierOrKeyword_pos:
  assumes "pos l < length (source l)"
    "isalpha (charAt (source l) (pos l)) \<or> charAt (source l) (pos l) = CHR ''_''"
  shows "pos l < pos (snd (scanIdentifierOrKeyword l))"
proof -
  let ?k = "readAt (pos l) l\<lparr>pos := pos l + 1, column := column l + 1\<rparr>"
  from assms have "scanIdentifierLoop [] l = scanIdentifierLoop [charAt (source l) (pos l)] ?k"
    by (subst scanIdentifierLoop.simps) (auto simp: isalnum_def)
  with scanIdentifierLoop_pos [of ?k "[charAt (source l) (pos l)]"] show ?thesis
    by (auto simp: scanIdentifierOrKeyword_def Let_def split: prod.splits option.splits)
qed

lemma lookahead_pos: "pos l \<le> pos (snd (lookahead ch t2 v2 t1 v1 ln cl l))"
  by (simp add: lookahead_def)

lemma nextToken_advances:
  "pos l < pos (snd (nextToken l)) \<or> length (source l) \<le> pos (snd (nextToken l))"
proof -
  let ?k = "skipWhitespaceAndComments l"
  let ?k1 = "readAt (pos ?k) ?k"
  let ?k2 = "?k1\<lparr>pos := pos ?k1 + 1, column := column ?k1 + 1\<rparr>"
  have k: "source ?k = source l" "pos l \<le> pos ?k"
    by (simp_all add: skipWhitespaceAndComments_source skipWhitespaceAndComments_pos)
  show ?thesis
  proof (cases "length (source l) \<le> pos ?k")
    case True
    with k show ?thesis by (simp add: nextToken_def Let_def)
  next
    case False
    have s: "pos l < pos (snd (scanString qt ?k1))" for qt
      using scanString_pos [of ?k1 qt] k by simp
    have n: "isdigit (charAt (source l) (pos ?k)) \<Longrightarrow> pos l < pos (snd (scanNumber ?k1))"
      using scanNumber_pos [of ?k1] False k by simp
    have i: "isalpha (charAt (source l) (pos ?k)) \<or> charAt (source l) (pos ?k) = CHR ''_'' \<Longrightarrow>
             pos l < pos (snd (scanIdentifierOrKeyword ?k1))"
      using scanIdentifierOrKeyword_pos [of ?k1] False k by simp
    have o: "pos l < pos (snd (lookahead ch t2 v2 t1 v1 ln cl ?k2))" for ch t2 v2 t1 v1 ln cl
      using lookahead_pos [of ?k2 ch t2 v2 t1 v1 ln cl] k by simp
    from False k s n i o have "pos l < pos (snd (nextToken l))"
      by (simp add: nextToken_def Let_def)
    then show ?thesis ..
  qed
qed

lemma lexerAfter_invariant:
  "readsWithin (lexerAfter n src) \<and> source (lexerAfter n src) = src"
proof (induction n)
  case 0
  show ?case by (simp add: newLexer_def readsWithin_def)
next
  case (Suc n)
  with nextToken_reads_up_to_length [of "lexerAfter n src"] show ?case by simp
qed

lemma lexerAfter_pos: "n \<le> pos (lexerAfter n src) \<or> length src \<le> pos (lexerAfter n src)"
proof (induction n)
  case 0
  show ?case by simp
next
  case (Suc n)
  from nextToken_advances [of "lexerAfter n src"] lexerAfter_invariant [of n src]
  have "pos (lexerAfter n src) < pos (lexerAfter (Suc n) src)
        \<or> length src \<le> pos (lexerAfter (Suc n) src)"
    by simp
  with Suc show ?case
    using nextToken_advances [of "lexerAfter n src"] by auto
qed


lemma lexerAfter_EOF_stays:
  assumes "ttype (fst (nextToken (lexerAfter n src))) = T_EOF_TOKEN"
  shows "nextToken (lexerAfter (n + k) src) = nextToken (lexerAfter n src)"
proof (induction k)
  case 0
  show ?case by simp
next
  case (Suc k)
  with assms have "ttype (fst (nextToken (lexerAfter (n + k) src))) = T_EOF_TOKEN"
    by simp
  from nextToken_EOF_stays [OF this] Suc show ?case by simp
qed

text \<open>
  Claim C4, as the code has it. For every source text and any number of calls:
  \<open>nextToken\<close> evaluates \<open>source[i]\<close> only for \<open>i\<close> up to and including the length of the
  text, where \<open>std::string\<close> holds its terminator, and never beyond; it leaves the text
  as it is; every function of the lexer is total, and from call number \<open>length src + 1\<close>
  on every call returns the end-of-input token; and once a call has returned that token,
  every later call returns the same token and leaves the lexer unchanged.
\<close>

theorem tokenization_total:
  "readsWithin (lexerAfter n src)
   \<and> source (lexerAfter n src) = src
   \<and> ttype (fst (nextToken (lexerAfter (length src + k) src))) = T_EOF_TOKEN
   \<and> (ttype (fst (nextToken (lexerAfter n src))) = T_EOF_TOKEN \<longrightarrow>
        nextToken (lexerAfter (n + k) src) = nextToken (lexerAfter n src))"
proof (intro conjI impI)
  show "readsWithin (lexerAfter n src)" "source (lexerAfter n src) = src"
    using lexerAfter_invariant [of n src] by simp_all
next
  let ?l = "lexerAfter (length src + k) src"
  from lexerAfter_pos [of "length src + k" src] have "length src \<le> pos ?l"
    by auto
  with lexerAfter_invariant [of "length src + k" src] have "length (source ?l) \<le> pos ?l"
    by simp
  from nextToken_at_end [OF this] show "ttype (fst (nextToken ?l)) = T_EOF_TOKEN"
    by (simp add: mkToken_def)
next
  assume "ttype (fst (nextToken (lexerAfter n src))) = T_EOF_TOKEN"
  then show "nextToken (lexerAfter (n + k) src) = nextToken (lexerAfter n src)"
    by (rule lexerAfter_EOF_stays)
qed

theorem tokenization_total_witness:
  "reads (lexerAfter 1 ''+'') = [0, 0, 1]
   \<and> readsWithin (lexerAfter 1 ''+'')
   \<and> ttype (fst (nextToken (lexerAfter 0 ''+''))) = T_PLUS
   \<and> ttype (fst (nextToken (lexerAfter 1 ''+''))) = T_EOF_TOKEN
   \<and> nextToken (lexerAfter (1 + 2) ''+'') = nextToken (lexerAfter 1 ''+'')
   \<and> ttype (fst (nextToken (lexerAfter (length ''+'' + 2) ''+''))) = T_EOF_TOKEN"
proof -
  note t = tokenization_total [of 1 "''+''" 2]
  have r: "reads (lexerAfter 1 ''+'') = [0, 0, 1]"
    by (simp add: lex_eval)
  have p: "ttype (fst (nextToken (lexerAfter 0 ''+''))) = T_PLUS"
    by (simp add: lex_eval)
  have e: "ttype (fst (nextToken (lexerAfter 1 ''+''))) = T_EOF_TOKEN"
    by (simp add: lex_eval)
  from t e have s: "nextToken (lexerAfter (1 + 2) ''+'') = nextToken (lexerAfter 1 ''+'')"
    by blast
  from t r p e s show ?thesis by blast
qed

section \<open>Properties of the parser\<close>

lemma parserAt_Suc_fields:
  "parseProgram (parserAt lib (Suc n)) = parseProgram_body (parserAt lib n)"
  "parseStatement (parserAt lib (Suc n)) = parseStatement_body (parserAt lib n)"
  "parseBlock (parserAt lib (Suc n)) = parseBlock_body (parserAt lib n)"
  "parseVariableDeclaration (parserAt lib (Suc n)) = parseVariableDeclaration_body (parserAt lib n)"
  "parseFunctionDeclaration (parserAt lib (Suc n)) = parseFunctionDeclaration_body (parserAt lib n)"
  "parseParams (parserAt lib (Suc n)) = parseParams_body (parserAt lib n)"
  "parseIfStatement (parserAt lib (Suc n)) = parseIfStatement_body (parserAt lib n)"
  "parseLoopStatement (parserAt lib (Suc n)) = parseLoopStatement_body (parserAt lib n)"
  "parseReturnStatement (parserAt lib (Suc n)) = parseReturnStatement_body (parserAt lib n)"
  "parseExpressionStatement (parserAt lib (Suc n)) = parseExpressionStatement_body (parserAt lib n)"
  "parseExpression (parserAt lib (Suc n)) = parseExpression_body (parserAt lib n)"
  "parseAssignment (parserAt lib (Suc n)) = parseAssignment_body (parserAt lib n)"
  "parseLogicalOr (parserAt lib (Suc n)) = parseLogicalOr_body (parserAt lib n)"
  "parseLogicalOrLoop (parserAt lib (Suc n)) = parseLogicalOrLoop_body (parserAt lib n)"
  "parseLogicalAnd (parserAt lib (Suc n)) = parseLogicalAnd_body (parserAt lib n)"
  "parseLogicalAndLoop (parserAt lib (Suc n)) = parseLogicalAndLoop_body (parserAt lib n)"
  "parseEquality (parserAt lib (Suc n)) = parseEquality_body (parserAt lib n)"
  "parseEqualityLoop (parserAt lib (Suc n)) = parseEqualityLoop_body (parserAt lib n)"
  "parseComparison (parserAt lib (Suc n)) = parseComparison_body (parserAt lib n)"
  "parseComparisonLoop (parserAt lib (Suc n)) = parseComparisonLoop_body (parserAt lib n)"
  "parseTerm (parserAt lib (Suc n)) = parseTerm_body (parserAt lib n)"
  "parseTermLoop (parserAt lib (Suc n)) = parseTermLoop_body (parserAt lib n)"
  "parseFactor (parserAt lib (Suc n)) = parseFactor_body (parserAt lib n)"
  "parseFactorLoop (parserAt lib (Suc n)) = parseFactorLoop_body (parserAt lib n)"
  "parseUnary (parserAt lib (Suc n)) = parseUnary_body (parserAt lib n)"
  "parsePostfix (parserAt lib (Suc n)) = parsePostfix_body (parserAt lib n)"
  "parsePostfixLoop (parserAt lib (Suc n)) = parsePostfixLoop_body (parserAt lib n)"
  "parseExpressionList (parserAt lib (Suc n)) = parseExpressionList_body (parserAt lib n)"
  "parseMembers (parserAt lib (Suc n)) = parseMembers_body (parserAt lib n)"
  "parsePrimary (parserAt lib (Suc n)) = parsePrimary_body lib (parserAt lib n)"
  by (simp_all add: Let_def)

lemma parserAt_numeral_fields:
  "parseProgram (parserAt lib (numeral k)) = parseProgram_body (parserAt lib (pred_numeral k))"
  "parseStatement (parserAt lib (numeral k)) = parseStatement_body (parserAt lib (pred_numeral k))"
  "parseBlock (parserAt lib (numeral k)) = parseBlock_body (parserAt lib (pred_numeral k))"
  "parseVariableDeclaration (parserAt lib (numeral k)) = parseVariableDeclaration_body (parserAt lib (pred_numeral k))"
  "parseFunctionDeclaration (parserAt lib (numeral k)) = parseFunctionDeclaration_body (parserAt lib (pred_numeral k))"
  "parseParams (parserAt lib (numeral k)) = parseParams_body (parserAt lib (pred_numeral k))"
  "parseIfStatement (parserAt lib (numeral k)) = parseIfStatement_body (parserAt lib (pred_numeral k))"
  "parseLoopStatement (parserAt lib (numeral k)) = parseLoopStatement_body (parserAt lib (pred_numeral k))"
  "parseReturnStatement (parserAt lib (numeral k)) = parseReturnStatement_body (parserAt lib (pred_numeral k))"
  "parseExpressionStatement (parserAt lib (numeral k)) = parseExpressionStatement_body (parserAt lib (pred_numeral k))"
  "parseExpression (parserAt lib (numeral k)) = parseExpression_body (parserAt lib (pred_numeral k))"
  "parseAssignment (parserAt lib (numeral k)) = parseAssignment_body (parserAt lib (pred_numeral k))"
  "parseLogicalOr (parserAt lib (numeral k)) = parseLogicalOr_body (parserAt lib (pred_numeral k))"
  "parseLogicalOrLoop (parserAt lib (numeral k)) = parseLogicalOrLoop_body (parserAt lib (pred_numeral k))"
  "parseLogicalAnd (parserAt lib (numeral k)) = parseLogicalAnd_body (parserAt lib (pred_numeral k))"
  "parseLogicalAndLoop (parserAt lib (numeral k)) = parseLogicalAndLoop_body (parserAt lib (pred_numeral k))"
  "parseEquality (parserAt lib (numeral k)) = parseEquality_body (parserAt lib (pred_numeral k))"
  "parseEqualityLoop (parserAt lib (numeral k)) = parseEqualityLoop_body (parserAt lib (pred_numeral k))"
  "parseComparison (parserAt lib (numeral k)) = parseComparison_body (parserAt lib (pred_numeral k))"
  "parseComparisonLoop (parserAt lib (numeral k)) = parseComparisonLoop_body (parserAt lib (pred_numeral k))"
  "parseTerm (parserAt lib (numeral k)) = parseTerm_body (parserAt lib (pred_numeral k))"
  "parseTermLoop (parserAt lib (numeral k)) = parseTermLoop_body (parserAt lib (pred_numeral k))"
  "parseFactor (parserAt lib (numeral k)) = parseFactor_body (parserAt lib (pred_numeral k))"
  "parseFactorLoop (parserAt lib (numeral k)) = parseFactorLoop_body (parserAt lib (pred_numeral k))"
  "parseUnary (parserAt lib (numeral k)) = parseUnary_body (parserAt lib (pred_numeral k))"
  "parsePostfix (parserAt lib (numeral k)) = parsePostfix_body (parserAt lib (pred_numeral k))"
  "parsePostfixLoop (parserAt lib (numeral k)) = parsePostfixLoop_body (parserAt lib (pred_numeral k))"
  "parseExpressionList (parserAt lib (numeral k)) = parseExpressionList_body (parserAt lib (pred_numeral k))"
  "parseMembers (parserAt lib (numeral k)) = parseMembers_body (parserAt lib (pred_numeral k))"
  "parsePrimary (parserAt lib (numeral k)) = parsePrimary_body lib (parserAt lib (pred_numeral k))"
  by (simp_all only: numeral_eq_Suc parserAt_Suc_fields)

lemmas parser_bodies =
  parseProgram_body_def
  parseStatement_body_def
  parseBlock_body_def
  parseVariableDeclaration_body_def
  parseFunctionDeclaration_body_def
  parseParams_body_def
  parseIfStatement_body_def
  parseLoopStatement_body_def
  parseReturnStatement_body_def
  parseExpressionStatement_body_def
  parseExpression_body_def
  parseAssignment_body_def
  parseLogicalOr_body_def
  parseLogicalOrLoop_body_def
  parseLogicalAnd_body_def
  parseLogicalAndLoop_body_def
  parseEquality_body_def
  parseEqualityLoop_body_def
  parseComparison_body_def
  parseComparisonLoop_body_def
  parseTerm_body_def
  parseTermLoop_body_def
  parseFactor_body_def
  parseFactorLoop_body_def
  parseUnary_body_def
  parsePostfix_body_def
  parsePostfixLoop_body_def
  parseExpressionList_body_def
  parseMembers_body_def
  parsePrimary_body_def

lemma andThen_simps:
  "andThen None f = None"
  "andThen (throw msg) f = throw msg"
  "andThen (ok x c) f = f x c"
  by (simp_all add: andThen_def throw_def ok_def)

lemma andThen_weak_cong: "m = m' \<Longrightarrow> andThen m f = andThen m' f"
  by simp

lemmas token_ops = check_def isAtEnd_def peek_def advance_def previous_def consume_def

lemmas parse_eval =
  parse_def parserAt_numeral_fields parser_bodies andThen_simps token_ops mkToken_def
  stod_def shortDecimal_def isdigit_def

lemma approx_refl: "approx r r"
  by (simp add: approx_def)

lemma approx_andThen:
  "approx m m' \<Longrightarrow> (\<And>x c. approx (f x c) (f' x c)) \<Longrightarrow> approx (andThen m f) (andThen m' f')"
  by (auto simp: approx_def andThen_def split: option.splits sum.splits)

lemma approx_if:
  "(b \<Longrightarrow> approx r r') \<Longrightarrow> (\<not> b \<Longrightarrow> approx s s') \<Longrightarrow>
   approx (if b then r else s) (if b then r' else s')"
  by simp

text \<open>
  More fuel never changes a result: a parse that has returned or thrown with some fuel
  does the same with any larger amount.
\<close>

lemma body_mono:
  assumes "parserBelow P Q"
  shows "approx (parseProgram_body P ts c x2) (parseProgram_body Q ts c x2)"
    and "approx (parseStatement_body P ts c) (parseStatement_body Q ts c)"
    and "approx (parseBlock_body P ts c x4) (parseBlock_body Q ts c x4)"
    and "approx (parseVariableDeclaration_body P ts c) (parseVariableDeclaration_body Q ts c)"
    and "approx (parseFunctionDeclaration_body P ts c) (parseFunctionDeclaration_body Q ts c)"
    and "approx (parseParams_body P ts c x7) (parseParams_body Q ts c x7)"
    and "approx (parseIfStatement_body P ts c) (parseIfStatement_body Q ts c)"
    and "approx (parseLoopStatement_body P ts c) (parseLoopStatement_body Q ts c)"
    and "approx (parseReturnStatement_body P ts c) (parseReturnStatement_body Q ts c)"
    and "approx (parseExpressionStatement_body P ts c) (parseExpressionStatement_body Q ts c)"
    and "approx (parseExpression_body P ts c) (parseExpression_body Q ts c)"
    and "approx (parseAssignment_body P ts c) (parseAssignment_body Q ts c)"
    and "approx (parseLogicalOr_body P ts c) (parseLogicalOr_body Q ts c)"
    and "approx (parseLogicalOrLoop_body P ts c x15) (parseLogicalOrLoop_body Q ts c x15)"
    and "approx (parseLogicalAnd_body P ts c) (parseLogicalAnd_body Q ts c)"
    and "approx (parseLogicalAndLoop_body P ts c x17) (parseLogicalAndLoop_body Q ts c x17)"
    and "approx (parseEquality_body P ts c) (parseEquality_body Q ts c)"
    and "approx (parseEqualityLoop_body P ts c x19) (parseEqualityLoop_body Q ts c x19)"
    and "approx (parseComparison_body P ts c) (parseComparison_body Q ts c)"
    and "approx (parseComparisonLoop_body P ts c x21) (parseComparisonLoop_body Q ts c x21)"
    and "approx (parseTerm_body P ts c) (parseTerm_body Q ts c)"
    and "approx (parseTermLoop_body P ts c x23) (parseTermLoop_body Q ts c x23)"
    and "approx (parseFactor_body P ts c) (parseFactor_body Q ts c)"
    and "approx (parseFactorLoop_body P ts c x25) (parseFactorLoop_body Q ts c x25)"
    and "approx (parseUnary_body P ts c) (parseUnary_body Q ts c)"
    and "approx (parsePostfix_body P ts c) (parsePostfix_body Q ts c)"
    and "approx (parsePostfixLoop_body P ts c x28) (parsePostfixLoop_body Q ts c x28)"
    and "approx (parseExpressionList_body P ts c x29) (parseExpressionList_body Q ts c x29)"
    and "approx (parseMembers_body P ts c x30) (parseMembers_body Q ts c x30)"
    and "approx (parsePrimary_body lib P ts c) (parsePrimary_body lib Q ts c)"
  using assms
  unfolding parser_bodies
  by (auto simp: parserBelow_def intro!: approx_andThen approx_if approx_refl
        split: Expression.split)



lemma parserBelow_zero: "parserBelow (parserAt lib 0) Q"
  by (simp add: parserBelow_def approx_def)

lemma parserBelow_le: "n \<le> m \<Longrightarrow> parserBelow (parserAt lib n) (parserAt lib m)"
proof (induction n arbitrary: m)
  case 0
  show ?case by (rule parserBelow_zero)
next
  case (Suc n)
  then obtain m' where m: "m = Suc m'" "n \<le> m'"
    by (cases m) auto
  note b = body_mono [OF Suc.IH [OF m(2)]]
  show ?case
    unfolding m(1) parserBelow_def parserAt_Suc_fields
    by (intro conjI allI b)
qed

lemma parse_more_fuel: "parse lib n ts = Some r \<Longrightarrow> parse lib (n + k) ts = Some r"
proof -
  assume a: "parse lib n ts = Some r"
  have "parserBelow (parserAt lib n) (parserAt lib (n + k))"
    by (rule parserBelow_le) simp
  then have ap: "approx (parseProgram (parserAt lib n) ts 0 [])
                   (parseProgram (parserAt lib (n + k)) ts 0 [])"
    by (simp add: parserBelow_def)
  show ?thesis
  proof (cases "parseProgram (parserAt lib n) ts 0 [] = None")
    case True
    with a show ?thesis by (simp add: parse_def)
  next
    case False
    with ap have "parseProgram (parserAt lib n) ts 0 [] = parseProgram (parserAt lib (n + k)) ts 0 []"
      by (simp add: approx_def)
    then have "parse lib (n + k) ts = parse lib n ts"
      by (simp add: parse_def)
    with a show ?thesis by simp
  qed
qed

lemma tokenize_double_index:
  "tokenize ''a[0][1];'' =
     [mkToken T_IDENTIFIER ''a'' 1 1, mkToken T_LBRACKET ''['' 1 2, mkToken T_NUMBER ''0'' 1 3,
      mkToken T_RBRACKET '']'' 1 4, mkToken T_LBRACKET ''['' 1 5, mkToken T_NUMBER ''1'' 1 6,
      mkToken T_RBRACKET '']'' 1 7, mkToken T_SEMICOLON '';'' 1 8, mkToken T_EOF_TOKEN [] 1 9]"
  by (simp add: lex_eval)

lemma tokenize_paren_index:
  "tokenize ''(1)[0];'' =
     [mkToken T_LPAREN ''('' 1 1, mkToken T_NUMBER ''1'' 1 2, mkToken T_RPAREN '')'' 1 3,
      mkToken T_LBRACKET ''['' 1 4, mkToken T_NUMBER ''0'' 1 5, mkToken T_RBRACKET '']'' 1 6,
      mkToken T_SEMICOLON '';'' 1 7, mkToken T_EOF_TOKEN [] 1 8]"
  by (simp add: lex_eval)

lemma tokenize_bad_assignment:
  "tokenize ''a[0] = 1;'' =
     [mkToken T_IDENTIFIER ''a'' 1 1, mkToken T_LBRACKET ''['' 1 2, mkToken T_NUMBER ''0'' 1 3,
      mkToken T_RBRACKET '']'' 1 4, mkToken T_ASSIGN ''='' 1 6, mkToken T_NUMBER ''1'' 1 8,
      mkToken T_SEMICOLON '';'' 1 9, mkToken T_EOF_TOKEN [] 1 10]"
  by (simp add: lex_eval)

lemma tokenize_double_call:
  "tokenize ''a(1)(2);'' =
     [mkToken T_IDENTIFIER ''a'' 1 1, mkToken T_LPAREN ''('' 1 2, mkToken T_NUMBER ''1'' 1 3,
      mkToken T_RPAREN '')'' 1 4, mkToken T_LPAREN ''('' 1 5, mkToken T_NUMBER ''2'' 1 6,
      mkToken T_RPAREN '')'' 1 7, mkToken T_SEMICOLON '';'' 1 8, mkToken T_EOF_TOKEN [] 1 9]"
  by (simp add: lex_eval)

text \<open>
  Claim C2. The statement \<^verbatim>\<open>a[0][1];\<close> indexes the result of an indexing, and
  \<^verbatim>\<open>(1)[0];\<close> indexes a parenthesized literal. The parser accepts both: it parses the
  index, finds that the target is no identifier, and drops the index without a word, so
  that the programs returned are those of \<^verbatim>\<open>a[0];\<close> and \<^verbatim>\<open>1;\<close>. The sibling check in
  \<open>parseAssignment\<close> does throw: \<^verbatim>\<open>a[0] = 1;\<close> gives \<open>Invalid assignment target\<close>. A
  call of the result of a call, \<^verbatim>\<open>a(1)(2);\<close>, is rejected as well, by the statement
  that finds a parenthesis where it expects the semicolon.
\<close>

theorem index_on_non_identifier_accepted:
  "parse lib (50 + k) (tokenize ''a[0][1];'')
     = Some (Inr [ExpressionStatement (ArrayAccess ''a'' (NumberLiteral ''0''))])
   \<and> parse lib (50 + k) (tokenize ''(1)[0];'') = Some (Inr [ExpressionStatement (NumberLiteral ''1'')])
   \<and> parse lib (50 + k) (tokenize ''a[0] = 1;'') = Some (Inl ''Invalid assignment target'')
   \<and> parse lib (50 + k) (tokenize ''a(1)(2);'')
       = Some (Inl ''Expected ';' after expression statement at line 1'')"
proof -
  have a: "parse lib 50 (tokenize ''a[0][1];'')
             = Some (Inr [ExpressionStatement (ArrayAccess ''a'' (NumberLiteral ''0''))])"
    unfolding tokenize_double_index
    by (simp add: parse_eval cong: andThen_weak_cong) (simp add: ok_def)
  have b: "parse lib 50 (tokenize ''(1)[0];'')
             = Some (Inr [ExpressionStatement (NumberLiteral ''1'')])"
    unfolding tokenize_paren_index
    by (simp add: parse_eval cong: andThen_weak_cong) (simp add: ok_def)
  have c: "parse lib 50 (tokenize ''a[0] = 1;'') = Some (Inl ''Invalid assignment target'')"
    unfolding tokenize_bad_assignment
    by (simp add: parse_eval cong: andThen_weak_cong) (simp add: throw_def)
  have d: "parse lib 50 (tokenize ''a(1)(2);'')
             = Some (Inl ''Expected ';' after expression statement at line 1'')"
    unfolding tokenize_double_call
    by (simp add: parse_eval cong: andThen_weak_cong)
       (simp add: throw_def to_string_int_def to_string.simps)
  from parse_more_fuel [OF a, of k] parse_more_fuel [OF b, of k] parse_more_fuel [OF c, of k] parse_more_fuel [OF d, of k] show ?thesis by blast
qed

lemma tokenize_bare_block:
  "tokenize ''{ banao x = 1; }'' =
     [mkToken T_LBRACE ''{'' 1 1, mkToken T_BANAO ''banao'' 1 3, mkToken T_IDENTIFIER ''x'' 1 9,
      mkToken T_ASSIGN ''='' 1 11, mkToken T_NUMBER ''1'' 1 13, mkToken T_SEMICOLON '';'' 1 14,
      mkToken T_RBRACE ''}'' 1 16, mkToken T_EOF_TOKEN [] 1 17]"
  by (simp add: lex_eval)

lemma tokenize_declaration:
  "tokenize ''banao x = 1;'' =
     [mkToken T_BANAO ''banao'' 1 1, mkToken T_IDENTIFIER ''x'' 1 7,
      mkToken T_ASSIGN ''='' 1 9, mkToken T_NUMBER ''1'' 1 11, mkToken T_SEMICOLON '';'' 1 12,
      mkToken T_EOF_TOKEN [] 1 13]"
  by (simp add: lex_eval)

text \<open>
  Claim C3. The source text \<^verbatim>\<open>{ banao x = 1; }\<close> is a bare block holding one
  declaration. The parser accepts it and returns a program with no statement at all: the
  statements of the block are parsed, collected, and thrown away with the \<open>nullptr\<close> that
  \<open>parseStatement\<close> returns for the block. Without the braces the declaration is kept.
\<close>

theorem bare_block_statements_discarded:
  "parse lib (50 + k) (tokenize ''{ banao x = 1; }'') = Some (Inr [])
   \<and> parse lib (50 + k) (tokenize ''banao x = 1;'')
       = Some (Inr [VariableDeclaration ''x'' (Some (NumberLiteral ''1''))])"
proof -
  have a: "parse lib 50 (tokenize ''{ banao x = 1; }'') = Some (Inr [])"
    unfolding tokenize_bare_block
    by (simp add: parse_eval cong: andThen_weak_cong) (simp add: ok_def)
  have b: "parse lib 50 (tokenize ''banao x = 1;'')
             = Some (Inr [VariableDeclaration ''x'' (Some (NumberLiteral ''1''))])"
    unfolding tokenize_declaration
    by (simp add: parse_eval cong: andThen_weak_cong) (simp add: ok_def)
  from parse_more_fuel [OF a, of k] parse_more_fuel [OF b, of k] show ?thesis by blast
qed

section \<open>Properties of the symbol table\<close>

lemma updateFrom_length: "length (snd (updateFrom n scs)) = length scs"
  by (induction scs) (auto split: option.splits prod.splits)

lemma updateFrom_dom:
  "map dom (snd (updateFrom n scs)) = map dom scs"
  by (induction scs) (auto split: option.splits prod.splits)

lemma update_length: "length (snd (update n scopes)) = length scopes"
  using updateFrom_length [of n "rev scopes"]
  by (auto simp: update_def split: prod.splits)

lemma update_dom: "map dom (snd (update n scopes)) = map dom scopes"
proof -
  have "map dom (rev (snd (updateFrom n (rev scopes)))) = map dom scopes"
    using updateFrom_dom [of n "rev scopes"] by (simp add: rev_map [symmetric])
  then show ?thesis by (auto simp: update_def split: prod.splits)
qed

lemma define_length: "length (snd (define_sym n t f i scopes)) = length scopes"
  by (cases scopes rule: rev_cases) (simp_all add: define_sym_def)

lemma define_global_dom:
  "scopes \<noteq> [] \<Longrightarrow> dom (hd scopes) \<subseteq> dom (hd (snd (define_sym n t f i scopes)))"
  by (cases scopes rule: rev_cases) (auto simp: define_sym_def hd_append split: if_splits)

lemma addFunctionSignature_length:
  "length (addFunctionSignature n ps r scopes) = length scopes"
  by (simp add: addFunctionSignature_def split: list.splits)

lemma addFunctionSignature_global_dom:
  "scopes \<noteq> [] \<Longrightarrow> dom (hd (addFunctionSignature n ps r scopes)) = insert n (dom (hd scopes))"
  by (cases scopes) (simp_all add: addFunctionSignature_def)

lemma addFunctionSignature_Cons:
  "addFunctionSignature n ps r (g # rest) =
     g(n \<mapsto> (mkSymbol n VOID True True)\<lparr>paramTypes := ps, returnType := r\<rparr>) # rest"
  by (simp add: addFunctionSignature_def)

lemma newSymbolTable_length: "length newSymbolTable = 1"
  by (simp add: newSymbolTable_def initBuiltins_def addFunctionSignature_Cons)

lemma newSymbolTable_dom: "dom (hd newSymbolTable) = set builtinNames"
proof -
  have "dom (hd newSymbolTable) = set (rev builtinNames)"
    unfolding newSymbolTable_def initBuiltins_def builtinNames_def
    by (simp only: o_apply addFunctionSignature_Cons list.sel dom_fun_upd dom_empty
          option.simps if_False rev.simps append.simps list.set)
  then show ?thesis by simp
qed

lemma applyOp_inv:
  assumes "scopes \<noteq> []" and "set builtinNames \<subseteq> dom (hd scopes)"
  shows "applyOp scopes op \<noteq> [] \<and> set builtinNames \<subseteq> dom (hd (applyOp scopes op))"
proof (cases op)
  case EnterScope
  with assms show ?thesis by (simp add: enterScope_def)
next
  case ExitScope
  with assms show ?thesis
    by (cases scopes rule: rev_cases) (auto simp: exitScope_def hd_append)
next
  case (Define n t f i)
  have "length (snd (define_sym n t f i scopes)) = length scopes" by (rule define_length)
  with assms(1) have "snd (define_sym n t f i scopes) \<noteq> []" by auto
  with Define assms define_global_dom [OF assms(1), of n t f i] show ?thesis by auto
next
  case (Lookup n)
  with assms show ?thesis by simp
next
  case (Update n)
  have len: "length (snd (update n scopes)) = length scopes" by (rule update_length)
  with assms(1) have ne: "snd (update n scopes) \<noteq> []" by auto
  have "hd (map dom (snd (update n scopes))) = hd (map dom scopes)"
    by (simp add: update_dom)
  with ne assms(1) have "dom (hd (snd (update n scopes))) = dom (hd scopes)"
    by (simp add: hd_map)
  with Update ne assms show ?thesis by simp
next
  case (AddFunctionSignature n ps r)
  have "length (addFunctionSignature n ps r scopes) = length scopes"
    by (rule addFunctionSignature_length)
  with assms(1) have "addFunctionSignature n ps r scopes \<noteq> []" by auto
  with AddFunctionSignature assms addFunctionSignature_global_dom [OF assms(1), of n ps r]
  show ?thesis by auto
qed

lemma foldl_applyOp_inv:
  "scopes \<noteq> [] \<Longrightarrow> set builtinNames \<subseteq> dom (hd scopes) \<Longrightarrow>
   foldl applyOp scopes ops \<noteq> [] \<and> set builtinNames \<subseteq> dom (hd (foldl applyOp scopes ops))"
proof (induction ops arbitrary: scopes)
  case Nil
  then show ?case by simp
next
  case (Cons op ops)
  from applyOp_inv [OF Cons.prems] Cons.IH show ?case by simp
qed

lemma applyOp_length:
  "scopes \<noteq> [] \<Longrightarrow> length (applyOp scopes op) = depthAfter (length scopes) [op]"
  by (cases op)
     (auto simp: enterScope_def exitScope_def define_length update_length
        addFunctionSignature_length)

lemma depthAfter_pos: "0 < d \<Longrightarrow> 0 < depthAfter d ops"
  by (induction d ops rule: depthAfter.induct) auto

lemma foldl_applyOp_length:
  "scopes \<noteq> [] \<Longrightarrow> length (foldl applyOp scopes ops) = depthAfter (length scopes) ops"
proof (induction ops arbitrary: scopes)
  case Nil
  then show ?case by simp
next
  case (Cons op ops)
  have step: "length (applyOp scopes op) = depthAfter (length scopes) [op]"
    by (rule applyOp_length [OF Cons.prems])
  have "0 < depthAfter (length scopes) [op]"
    using Cons.prems by (intro depthAfter_pos) simp
  with step have ne: "applyOp scopes op \<noteq> []" by auto
  show ?case
    using Cons.IH [OF ne] step by (cases op) auto
qed

text \<open>
  Claim C8. Whatever operations are applied to a freshly constructed table, the scope
  stack stays non-empty and its first element still holds every builtin, so it is still
  the global scope. \<open>exitScope\<close> on a stack of one scope returns it unchanged, never
  yields an empty stack and never touches index 0; \<open>enterScope\<close> appends exactly one
  empty scope. The depth follows the count of the source: plus one on entry, minus one on
  exit unless only the global scope is left.
\<close>

theorem scope_stack_never_empty:
  "runOps ops \<noteq> []
   \<and> set builtinNames \<subseteq> dom (runOps ops ! 0)
   \<and> length (runOps ops) = depthAfter 1 ops
   \<and> exitScope [g] = [g]
   \<and> exitScope (runOps ops) \<noteq> []
   \<and> exitScope (runOps ops) ! 0 = runOps ops ! 0
   \<and> enterScope (runOps ops) = runOps ops @ [Map.empty]
   \<and> enterScope (runOps ops) ! 0 = runOps ops ! 0"
proof -
  have ne0: "newSymbolTable \<noteq> []"
    using newSymbolTable_length by auto
  have inv: "runOps ops \<noteq> [] \<and> set builtinNames \<subseteq> dom (hd (runOps ops))"
    unfolding runOps_def
    by (rule foldl_applyOp_inv [OF ne0]) (simp add: newSymbolTable_dom)
  then have ne: "runOps ops \<noteq> []" by simp
  have len: "length (runOps ops) = depthAfter 1 ops"
    unfolding runOps_def
    using foldl_applyOp_length [OF ne0, of ops] by (simp add: newSymbolTable_length)
  have ex: "exitScope (runOps ops) \<noteq> [] \<and> exitScope (runOps ops) ! 0 = runOps ops ! 0"
    using ne by (cases "runOps ops" rule: rev_cases) (auto simp: exitScope_def nth_append)
  have en: "enterScope (runOps ops) ! 0 = runOps ops ! 0"
    using ne by (simp add: enterScope_def nth_append)
  have one: "exitScope [g] = [g]"
    by (simp add: exitScope_def)
  have app: "enterScope (runOps ops) = runOps ops @ [Map.empty]"
    by (simp add: enterScope_def)
  from inv have glob: "set builtinNames \<subseteq> dom (runOps ops ! 0)"
    by (metis hd_conv_nth)
  from ne glob len one ex app en show ?thesis by blast
qed

section \<open>Properties of the semantic analyzer\<close>

lemmas table_eval =
  newSemanticAnalyzer_def newSymbolTable_def initBuiltins_def addFunctionSignature_Cons
  define_sym_def lookup_def update_def mkSymbol_def enterScope_def exitScope_def

lemmas check_eval =
  pushError_def checkBinaryOp_def checkUnaryOp_def checkAssignment_def checkCondition_def
  checkArgumentCount_def checkIndexable_def q_def


subsection \<open>Diagnostics are only appended\<close>

lemma addErrs_fields [simp]:
  "symbolTable (addErrs es a) = symbolTable a"
  "inFunction (addErrs es a) = inFunction a"
  "currentReturnType (addErrs es a) = currentReturnType a"
  "errors (addErrs es a) = es @ errors a"
  by (simp_all add: addErrs_def)

lemma addErrs_update [simp]:
  "(addErrs es a)\<lparr>symbolTable := t\<rparr> = addErrs es (a\<lparr>symbolTable := t\<rparr>)"
  "(addErrs es a)\<lparr>inFunction := b\<rparr> = addErrs es (a\<lparr>inFunction := b\<rparr>)"
  "(addErrs es a)\<lparr>currentReturnType := d\<rparr> = addErrs es (a\<lparr>currentReturnType := d\<rparr>)"
  by (simp_all add: addErrs_def)

lemma pushError_addErrs [simp]: "pushError e (addErrs es a) = addErrs es (pushError e a)"
  by (simp add: pushError_def addErrs_def)

lemma checkBinaryOp_addErrs:
  "checkBinaryOp op l r (addErrs es a) =
     (fst (checkBinaryOp op l r a), addErrs es (snd (checkBinaryOp op l r a)))"
  by (simp add: checkBinaryOp_def Let_def)

lemma checkUnaryOp_addErrs:
  "checkUnaryOp op t (addErrs es a) =
     (fst (checkUnaryOp op t a), addErrs es (snd (checkUnaryOp op t a)))"
  by (simp add: checkUnaryOp_def)

lemma checkAssignment_addErrs:
  "checkAssignment n s t (addErrs es a) =
     (fst (checkAssignment n s t a), addErrs es (snd (checkAssignment n s t a)))"
  by (simp add: checkAssignment_def Let_def)

lemma checkCondition_addErrs:
  "checkCondition w t (addErrs es a) = addErrs es (checkCondition w t a)"
  by (simp add: checkCondition_def)

lemma checkArgumentCount_addErrs:
  "checkArgumentCount n f args (addErrs es a) = addErrs es (checkArgumentCount n f args a)"
  by (simp add: checkArgumentCount_def)

lemma checkIndexable_addErrs:
  "checkIndexable n s (addErrs es a) = addErrs es (checkIndexable n s a)"
  by (simp add: checkIndexable_def)

lemma analyzeExpression_addErrs:
  "analyzeExpression e (addErrs es a) =
     (fst (analyzeExpression e a), addErrs es (snd (analyzeExpression e a)))"
  "analyzeEach xs (addErrs es a) = addErrs es (analyzeEach xs a)"
  "analyzeNumberArgs n xs (addErrs es a) = addErrs es (analyzeNumberArgs n xs a)"
proof (induction e a and xs a and n xs a arbitrary: es and es and es
       rule: analyzeExpression_analyzeEach_analyzeNumberArgs.induct)
  case (8 n args a)
  then show ?case
    by (auto simp: checkArgumentCount_addErrs split: option.splits list.splits prod.splits)
qed (auto simp: checkIndexable_addErrs checkBinaryOp_addErrs checkUnaryOp_addErrs checkAssignment_addErrs
       split: option.splits prod.splits)

lemma analyzeStatement_addErrs:
  "analyzeStatement s (addErrs es a) = addErrs es (analyzeStatement s a)"
  "analyzeStatements ss (addErrs es a) = addErrs es (analyzeStatements ss a)"
proof (induction s a and ss a arbitrary: es and es rule: analyzeStatement_analyzeStatements.induct)
  case (1 n init a)
  show ?case
    by (cases init) (auto simp: analyzeExpression_addErrs split: prod.splits)
next
  case (2 n params body a)
  then show ?case by (simp add: Let_def)
next
  case (3 cond thenBranch elseBranch a)
  then show ?case
    by (simp add: analyzeExpression_addErrs checkCondition_addErrs Let_def split: prod.splits)
next
  case (4 cond body a)
  then show ?case
    by (simp add: analyzeExpression_addErrs checkCondition_addErrs Let_def split: prod.splits)
next
  case (5 v a)
  then show ?case by (cases v) (auto simp: analyzeExpression_addErrs)
next
  case (6 e a)
  then show ?case by (simp add: analyzeExpression_addErrs)
qed auto

lemma addErrs_self: "a = addErrs (errors a) (a\<lparr>errors := []\<rparr>)"
  by (simp add: addErrs_def)

lemma errors_analyzeStatement:
  "errors (analyzeStatement s a) = errors a @ errors (analyzeStatement s (a\<lparr>errors := []\<rparr>))"
  using analyzeStatement_addErrs(1) [of s "errors a" "a\<lparr>errors := []\<rparr>"]
  by (simp add: addErrs_self [symmetric])

subsection \<open>Expressions keep the names of every scope\<close>

lemma lookupFrom_None_iff: "lookupFrom n scs = None \<longleftrightarrow> n \<notin> \<Union> (set (map dom scs))"
  by (induction scs) (auto split: option.splits)

lemma lookup_None_iff: "lookup n t = None \<longleftrightarrow> n \<notin> \<Union> (set (map dom t))"
  by (simp add: lookup_def lookupFrom_None_iff)

lemma lookupFrom_updateFrom:
  "lookupFrom n scs = Some s \<Longrightarrow>
   lookupFrom n (snd (updateFrom n scs)) = Some (s\<lparr>isInitialized := True\<rparr>)"
  by (induction scs) (auto split: option.splits prod.splits)

lemma lookup_update:
  "lookup n t = Some s \<Longrightarrow> lookup n (snd (update n t)) = Some (s\<lparr>isInitialized := True\<rparr>)"
  using lookupFrom_updateFrom [of n "rev t" s]
  by (auto simp: lookup_def update_def split: prod.splits)

lemma pushError_symbolTable [simp]: "symbolTable (pushError e a) = symbolTable a"
  by (simp add: pushError_def)

lemma checkBinaryOp_symbolTable [simp]:
  "symbolTable (snd (checkBinaryOp op l r a)) = symbolTable a"
  by (simp add: checkBinaryOp_def Let_def)

lemma checkUnaryOp_symbolTable [simp]:
  "symbolTable (snd (checkUnaryOp op t a)) = symbolTable a"
  by (simp add: checkUnaryOp_def)

lemma checkArgumentCount_symbolTable [simp]:
  "symbolTable (checkArgumentCount n f args a) = symbolTable a"
  by (simp add: checkArgumentCount_def)

lemma checkIndexable_symbolTable [simp]:
  "symbolTable (checkIndexable n s a) = symbolTable a"
  by (simp add: checkIndexable_def)

lemma checkAssignment_dom [simp]:
  "map dom (symbolTable (snd (checkAssignment n s t a))) = map dom (symbolTable a)"
  by (simp add: checkAssignment_def Let_def update_dom)

lemma analyzeExpression_dom:
  "map dom (symbolTable (snd (analyzeExpression e a))) = map dom (symbolTable a)"
  "map dom (symbolTable (analyzeEach xs a)) = map dom (symbolTable a)"
  "map dom (symbolTable (analyzeNumberArgs n xs a)) = map dom (symbolTable a)"
proof (induction e a and xs a and n xs a
       rule: analyzeExpression_analyzeEach_analyzeNumberArgs.induct)
  case (5 l op r a)
  from "5.IH"(2) [of "fst (analyzeExpression l a)" "snd (analyzeExpression l a)"] "5.IH"(1)
  show ?case by (simp add: case_prod_beta)
next
  case (8 n args a)
  then show ?case
    by (auto simp: case_prod_beta split: option.split list.split)
next
  case (15 n x xs a)
  from "15.IH"(2) [of "fst (analyzeExpression x a)" "snd (analyzeExpression x a)"] "15.IH"(1)
  show ?case by (simp add: case_prod_beta)
qed (simp_all add: case_prod_beta split: option.split)

lemma lookup_dom_cong:
  "map dom t = map dom t' \<Longrightarrow> lookup n t = None \<longleftrightarrow> lookup n t' = None"
  by (simp only: lookup_None_iff)

text \<open>
  An assignment to an undefined name does not yield the type of its value and marks
  nothing: \<^verbatim>\<open>y = 1\<close> in a fresh analyzer yields \<open>UNKNOWN\<close>, where the value \<^verbatim>\<open>1\<close> has
  type \<open>NUMBER\<close>, and \<open>y\<close> is bound to no symbol afterwards.
\<close>

theorem assignment_to_undefined_yields_unknown:
  "lookup ''y'' (symbolTable newSemanticAnalyzer) = None
   \<and> fst (analyzeExpression (NumberLiteral ''1'') newSemanticAnalyzer) = NUMBER
   \<and> fst (analyzeAssignment ''y'' (NumberLiteral ''1'') newSemanticAnalyzer) = UNKNOWN
   \<and> fst (analyzeAssignment ''y'' (NumberLiteral ''1'') newSemanticAnalyzer)
       \<noteq> fst (analyzeExpression (NumberLiteral ''1'') newSemanticAnalyzer)
   \<and> lookup ''y''
         (symbolTable (snd (analyzeAssignment ''y'' (NumberLiteral ''1'') newSemanticAnalyzer)))
       = None"
  by (simp add: analyzeAssignment_def table_eval)

text \<open>
  Claim C7, with its last two parts read for a defined target. An assignment to a name
  that no visible scope binds records the undefined-variable diagnostic, yields \<open>UNKNOWN\<close>
  without analyzing the value, and leaves the symbol table as it was: nothing is declared.
  When the lookup finds the symbol \<open>symb\<close> and the value analyzes to \<open>valueType\<close>, leaving
  the analyzer \<open>a1\<close>, then the assignment yields \<open>valueType\<close>; its diagnostics are those of
  the value, followed by exactly one type-mismatch message naming the variable, the expected
  and the actual type when both types are known and differ, and by nothing otherwise; and the
  name is afterwards bound to an initialized symbol.
\<close>

theorem assignment_rules:
  "(lookup n (symbolTable a) = None \<longrightarrow>
      analyzeAssignment n v a
        = (UNKNOWN, pushError (''ERROR: Undefined variable '' @ q @ n @ q) a))
   \<and> (lookup n (symbolTable a) = Some symb \<and> analyzeExpression v a = (valueType, a1) \<longrightarrow>
        fst (analyzeAssignment n v a) = valueType
        \<and> errors (snd (analyzeAssignment n v a))
            = errors a1
              @ (if type symb \<noteq> UNKNOWN \<and> valueType \<noteq> UNKNOWN \<and> type symb \<noteq> valueType
                 then [''ERROR: Type mismatch in assignment to '' @ q @ n @ q
                        @ '': expected '' @ dataTypeToString (type symb)
                        @ '', got '' @ dataTypeToString valueType]
                 else [])
        \<and> (\<exists>s. lookup n (symbolTable (snd (analyzeAssignment n v a))) = Some s
                 \<and> isInitialized s))"
proof (intro conjI impI)
  assume "lookup n (symbolTable a) = None"
  then show "analyzeAssignment n v a
        = (UNKNOWN, pushError (''ERROR: Undefined variable '' @ q @ n @ q) a)"
    by (simp add: analyzeAssignment_def)
next
  assume h: "lookup n (symbolTable a) = Some symb \<and> analyzeExpression v a = (valueType, a1)"
  then show "fst (analyzeAssignment n v a) = valueType"
    by (simp add: analyzeAssignment_def checkAssignment_def Let_def)
next
  assume h: "lookup n (symbolTable a) = Some symb \<and> analyzeExpression v a = (valueType, a1)"
  then show "errors (snd (analyzeAssignment n v a))
            = errors a1
              @ (if type symb \<noteq> UNKNOWN \<and> valueType \<noteq> UNKNOWN \<and> type symb \<noteq> valueType
                 then [''ERROR: Type mismatch in assignment to '' @ q @ n @ q
                        @ '': expected '' @ dataTypeToString (type symb)
                        @ '', got '' @ dataTypeToString valueType]
                 else [])"
    by (simp add: analyzeAssignment_def checkAssignment_def Let_def pushError_def)
next
  assume h: "lookup n (symbolTable a) = Some symb \<and> analyzeExpression v a = (valueType, a1)"
  have "map dom (symbolTable a1) = map dom (symbolTable a)"
    using analyzeExpression_dom(1) [of v a] h by simp
  from lookup_dom_cong [OF this, of n] h have "lookup n (symbolTable a1) \<noteq> None"
    by simp
  then obtain s0 where s0: "lookup n (symbolTable a1) = Some s0" by blast
  have "lookup n (symbolTable (snd (analyzeAssignment n v a)))
          = Some (s0\<lparr>isInitialized := True\<rparr>)"
    using h lookup_update [OF s0]
    by (simp add: analyzeAssignment_def checkAssignment_def Let_def)
  then show "\<exists>s. lookup n (symbolTable (snd (analyzeAssignment n v a))) = Some s
                 \<and> isInitialized s"
    by simp
qed

theorem assignment_rules_witness:
  "lookup ''y'' (symbolTable newSemanticAnalyzer) = None
   \<and> analyzeAssignment ''y'' (NumberLiteral ''1'') newSemanticAnalyzer
       = (UNKNOWN, pushError (''ERROR: Undefined variable 'y'' @ q) newSemanticAnalyzer)
   \<and> lookup ''x'' (symbolTable afterBanaoX) = Some (mkSymbol ''x'' NUMBER False True)
   \<and> analyzeExpression (StringLiteral ''s'') afterBanaoX = (STRING, afterBanaoX)
   \<and> fst (analyzeAssignment ''x'' (StringLiteral ''s'') afterBanaoX) = STRING
   \<and> errors (snd (analyzeAssignment ''x'' (StringLiteral ''s'') afterBanaoX))
       = [''ERROR: Type mismatch in assignment to 'x': expected number, got string'']
   \<and> (\<exists>s. lookup ''x'' (symbolTable (snd (analyzeAssignment ''x'' (StringLiteral ''s'')
               afterBanaoX))) = Some s \<and> isInitialized s)"
proof -
  have u: "lookup ''y'' (symbolTable newSemanticAnalyzer) = None"
    by (simp add: table_eval)
  have e0: "errors afterBanaoX = []"
    by (simp add: afterBanaoX_def table_eval)
  have d: "lookup ''x'' (symbolTable afterBanaoX) = Some (mkSymbol ''x'' NUMBER False True)"
    by (simp add: afterBanaoX_def table_eval)
  have v: "analyzeExpression (StringLiteral ''s'') afterBanaoX = (STRING, afterBanaoX)"
    by simp
  from assignment_rules [of "''y''" newSemanticAnalyzer "NumberLiteral ''1''"] u
  have c1: "analyzeAssignment ''y'' (NumberLiteral ''1'') newSemanticAnalyzer
       = (UNKNOWN, pushError (''ERROR: Undefined variable 'y'' @ q) newSemanticAnalyzer)"
    by (simp add: q_def)
  from assignment_rules
         [of "''x''" afterBanaoX "StringLiteral ''s''" "mkSymbol ''x'' NUMBER False True"
             STRING afterBanaoX] d v
  have c2: "fst (analyzeAssignment ''x'' (StringLiteral ''s'') afterBanaoX) = STRING
     \<and> errors (snd (analyzeAssignment ''x'' (StringLiteral ''s'') afterBanaoX))
       = [''ERROR: Type mismatch in assignment to 'x': expected number, got string'']
     \<and> (\<exists>s. lookup ''x'' (symbolTable (snd (analyzeAssignment ''x'' (StringLiteral ''s'')
               afterBanaoX))) = Some s \<and> isInitialized s)"
    by (simp add: e0 mkSymbol_def q_def)
  from u d v c1 c2 show ?thesis by blast
qed

subsection \<open>Entry point, conditions, arithmetic, calls, parameters\<close>

text \<open>
  Claim C1. \<open>analyze\<close> looks \<open>main\<close> up without asking whether the symbol is a function.
  The source text \<^verbatim>\<open>banao main = 1;\<close> parses to a program that declares no function at
  all, and yet \<open>analyze\<close> returns \<open>true\<close> with an empty list of diagnostics: the symbol
  found is the variable.
\<close>

theorem variable_named_main_accepted:
  "parse lib (50 + k) (tokenize ''banao main = 1;'')
     = Some (Inr [VariableDeclaration ''main'' (Some (NumberLiteral ''1''))])
   \<and> fst (analyze [VariableDeclaration ''main'' (Some (NumberLiteral ''1''))] newSemanticAnalyzer)
   \<and> errors (snd (analyze [VariableDeclaration ''main'' (Some (NumberLiteral ''1''))]
                newSemanticAnalyzer)) = []
   \<and> (\<exists>s. lookup ''main''
             (symbolTable (snd (analyze [VariableDeclaration ''main'' (Some (NumberLiteral ''1''))]
                newSemanticAnalyzer))) = Some s \<and> \<not> isFunction s)"
proof -
  have t: "tokenize ''banao main = 1;'' =
     [mkToken T_BANAO ''banao'' 1 1, mkToken T_IDENTIFIER ''main'' 1 7,
      mkToken T_ASSIGN ''='' 1 12, mkToken T_NUMBER ''1'' 1 14, mkToken T_SEMICOLON '';'' 1 15,
      mkToken T_EOF_TOKEN [] 1 16]"
    by (simp add: lex_eval)
  have p: "parse lib 50 (tokenize ''banao main = 1;'')
     = Some (Inr [VariableDeclaration ''main'' (Some (NumberLiteral ''1''))])"
    unfolding t
    by (simp add: parse_eval cong: andThen_weak_cong) (simp add: ok_def)
  have a: "fst (analyze [VariableDeclaration ''main'' (Some (NumberLiteral ''1''))]
             newSemanticAnalyzer)
   \<and> errors (snd (analyze [VariableDeclaration ''main'' (Some (NumberLiteral ''1''))]
                newSemanticAnalyzer)) = []
   \<and> (\<exists>s. lookup ''main''
             (symbolTable (snd (analyze [VariableDeclaration ''main'' (Some (NumberLiteral ''1''))]
                newSemanticAnalyzer))) = Some s \<and> \<not> isFunction s)"
    by (simp add: analyze_def table_eval)
  from parse_more_fuel [OF p, of k] a show ?thesis by blast
qed

text \<open>
  Claim C9. A call of \<open>band\<close> is analyzed exactly as the call without arguments is, in
  every analyzer and for every list of arguments: the arguments are never visited. When
  \<open>band\<close> resolves to a function symbol, as the builtin does, the call yields \<open>VOID\<close> and
  leaves the analyzer, and so its diagnostics, untouched.
\<close>

theorem band_ignores_arguments:
  "analyzeFunctionCall ''band'' args a = analyzeFunctionCall ''band'' [] a
   \<and> (lookup ''band'' (symbolTable a) = Some f \<and> isFunction f \<longrightarrow>
        analyzeFunctionCall ''band'' args a = (VOID, a))"
  by (simp add: analyzeFunctionCall_def split: option.split)

theorem band_ignores_arguments_witness:
  "(\<exists>f. lookup ''band'' (symbolTable newSemanticAnalyzer) = Some f \<and> isFunction f)
   \<and> analyzeFunctionCall ''band'' [Identifier ''nowhere''] newSemanticAnalyzer
       = (VOID, newSemanticAnalyzer)
   \<and> errors (snd (analyzeExpression (Identifier ''nowhere'') newSemanticAnalyzer))
       = [''ERROR: Undefined variable 'nowhere'' @ q]"
proof -
  let ?f = "(mkSymbol ''band'' VOID True True)\<lparr>paramTypes := [], returnType := VOID\<rparr>"
  have h: "lookup ''band'' (symbolTable newSemanticAnalyzer) = Some ?f \<and> isFunction ?f"
    by (simp add: table_eval)
  with band_ignores_arguments [of "[Identifier ''nowhere'']" newSemanticAnalyzer ?f]
  have c: "analyzeFunctionCall ''band'' [Identifier ''nowhere''] newSemanticAnalyzer
             = (VOID, newSemanticAnalyzer)"
    by blast
  have e: "errors (snd (analyzeExpression (Identifier ''nowhere'') newSemanticAnalyzer))
             = [''ERROR: Undefined variable 'nowhere'' @ q]"
    by (simp add: table_eval check_eval)
  from h c e show ?thesis by blast
qed

lemma checkCondition_errors:
  "errors (checkCondition what t a)
     = errors a @ (if t \<notin> {BOOLEAN, UNKNOWN, VOID}
                   then [''ERROR: '' @ what @ '' condition must be boolean, got ''
                          @ dataTypeToString t]
                   else [])"
  by (simp add: checkCondition_def pushError_def)

lemma checkCondition_reset: "(checkCondition what t a)\<lparr>errors := []\<rparr> = a\<lparr>errors := []\<rparr>"
  by (simp add: checkCondition_def pushError_def)

text \<open>
  Claim C5. Let the condition of an if or loop statement analyze to \<open>condType\<close>, leaving
  the analyzer \<open>a1\<close>. The diagnostics after the whole statement are those of \<open>a1\<close>, then
  the one type-mismatch message when \<open>condType\<close> is none of \<open>BOOLEAN\<close>, \<open>UNKNOWN\<close>,
  \<open>VOID\<close> and nothing otherwise, then what the branches produce by themselves, that is
  the diagnostics of the same statement under the condition \<open>haan\<close> started from \<open>a1\<close>
  with an empty list. An arithmetic operator always yields \<open>NUMBER\<close>.
\<close>

theorem condition_type_check:
  "(analyzeExpression c a = (condType, a1) \<longrightarrow>
      errors (analyzeStatement (IfStatement c thenBranch elseBranch) a)
        = errors a1
          @ (if condType \<notin> {BOOLEAN, UNKNOWN, VOID}
             then [''ERROR: If condition must be boolean, got '' @ dataTypeToString condType]
             else [])
          @ errors (analyzeStatement (IfStatement (BooleanLiteral True) thenBranch elseBranch)
                      (a1\<lparr>errors := []\<rparr>))
      \<and> errors (analyzeStatement (LoopStatement c body) a)
        = errors a1
          @ (if condType \<notin> {BOOLEAN, UNKNOWN, VOID}
             then [''ERROR: Loop condition must be boolean, got '' @ dataTypeToString condType]
             else [])
          @ errors (analyzeStatement (LoopStatement (BooleanLiteral True) body)
                      (a1\<lparr>errors := []\<rparr>)))
   \<and> (op \<in> {''+'', ''-'', ''*'', ''/'', ''%''} \<longrightarrow> fst (analyzeBinaryOp l op r a) = NUMBER)"
proof (intro conjI impI)
  assume h: "analyzeExpression c a = (condType, a1)"
  have "analyzeStatement (IfStatement c thenBranch elseBranch) a
          = analyzeStatement (IfStatement (BooleanLiteral True) thenBranch elseBranch)
              (checkCondition ''If'' condType a1)"
    using h by (simp add: checkCondition_def [of _ BOOLEAN] Let_def)
  then show "errors (analyzeStatement (IfStatement c thenBranch elseBranch) a)
        = errors a1
          @ (if condType \<notin> {BOOLEAN, UNKNOWN, VOID}
             then [''ERROR: If condition must be boolean, got '' @ dataTypeToString condType]
             else [])
          @ errors (analyzeStatement (IfStatement (BooleanLiteral True) thenBranch elseBranch)
                      (a1\<lparr>errors := []\<rparr>))"
    using errors_analyzeStatement
            [of "IfStatement (BooleanLiteral True) thenBranch elseBranch"
                "checkCondition ''If'' condType a1"]
    by (simp only: checkCondition_errors checkCondition_reset append_assoc) simp
next
  assume h: "analyzeExpression c a = (condType, a1)"
  have "analyzeStatement (LoopStatement c body) a
          = analyzeStatement (LoopStatement (BooleanLiteral True) body)
              (checkCondition ''Loop'' condType a1)"
    using h by (simp add: checkCondition_def [of _ BOOLEAN] Let_def)
  then show "errors (analyzeStatement (LoopStatement c body) a)
        = errors a1
          @ (if condType \<notin> {BOOLEAN, UNKNOWN, VOID}
             then [''ERROR: Loop condition must be boolean, got '' @ dataTypeToString condType]
             else [])
          @ errors (analyzeStatement (LoopStatement (BooleanLiteral True) body)
                      (a1\<lparr>errors := []\<rparr>))"
    using errors_analyzeStatement
            [of "LoopStatement (BooleanLiteral True) body" "checkCondition ''Loop'' condType a1"]
    by (simp only: checkCondition_errors checkCondition_reset append_assoc) simp
next
  assume "op \<in> {''+'', ''-'', ''*'', ''/'', ''%''}"
  then show "fst (analyzeBinaryOp l op r a) = NUMBER"
    by (auto simp: analyzeBinaryOp_def checkBinaryOp_def Let_def split: prod.split)
qed

theorem condition_type_check_witness:
  "analyzeExpression (BinaryOp (NumberLiteral ''1'') ''+'' (NumberLiteral ''2'')) newSemanticAnalyzer
     = (NUMBER, newSemanticAnalyzer)
   \<and> errors (analyzeStatement
         (IfStatement (BinaryOp (NumberLiteral ''1'') ''+'' (NumberLiteral ''2'')) [] [])
         newSemanticAnalyzer)
       = [''ERROR: If condition must be boolean, got number'']
   \<and> errors (analyzeStatement
         (LoopStatement (BinaryOp (NumberLiteral ''1'') ''+'' (NumberLiteral ''2'')) [])
         newSemanticAnalyzer)
       = [''ERROR: Loop condition must be boolean, got number'']
   \<and> ''+'' \<in> {''+'', ''-'', ''*'', ''/'', ''%''}
   \<and> fst (analyzeBinaryOp (NumberLiteral ''1'') ''+'' (NumberLiteral ''2'') newSemanticAnalyzer)
       = NUMBER"
proof -
  let ?c = "BinaryOp (NumberLiteral ''1'') ''+'' (NumberLiteral ''2'')"
  have h: "analyzeExpression ?c newSemanticAnalyzer = (NUMBER, newSemanticAnalyzer)"
    by (simp add: checkBinaryOp_def)
  have m: "''+'' \<in> {''+'', ''-'', ''*'', ''/'', ''%''}" by simp
  have r: "errors (analyzeStatement (IfStatement (BooleanLiteral True) [] [])
             (newSemanticAnalyzer\<lparr>errors := []\<rparr>)) = []"
          "errors (analyzeStatement (LoopStatement (BooleanLiteral True) [])
             (newSemanticAnalyzer\<lparr>errors := []\<rparr>)) = []"
          "errors newSemanticAnalyzer = []"
    by (simp_all add: checkCondition_def newSemanticAnalyzer_def)
  from condition_type_check
         [of ?c newSemanticAnalyzer NUMBER newSemanticAnalyzer "[]" "[]" "[]" "''+''"
             "NumberLiteral ''1''" "NumberLiteral ''2''"] h m r
  show ?thesis by simp
qed

lemma define_sym_snoc:
  "define_sym p t f i (scopes @ [m])
     = (if m p \<noteq> None then (False, scopes @ [m])
        else (True, scopes @ [m(p \<mapsto> mkSymbol p t f i)]))"
  by (simp add: define_sym_def)

lemma defineParams_snoc:
  "defineParams ps (scopes @ [m])
     = scopes @ [\<lambda>p. if p \<in> set ps \<and> m p = None
                      then Some (mkSymbol p UNKNOWN False True) else m p]"
proof (induction ps arbitrary: m)
  case Nil
  then show ?case by simp
next
  case (Cons p ps)
  show ?case
    by (auto simp: define_sym_snoc Cons.IH intro!: ext)
qed

text \<open>
  Claim C6. For an arithmetic operator the result is \<open>NUMBER\<close>, and the only diagnostics
  added after the operands are one for a left operand and one for a right operand whose
  type is none of \<open>NUMBER\<close>, \<open>UNKNOWN\<close>, \<open>VOID\<close>. A call of a function symbol that is
  not a builtin yields the return type of the symbol. Where the body of a top-level
  function \<open>f\<close> begins, with the signature registered and the parameters defined, the name
  \<open>f\<close> resolves to that signature, whose return type is \<open>VOID\<close>, unless a parameter
  has the same name.
\<close>

theorem arithmetic_accepts_unknown_and_void:
  "(op \<in> {''+'', ''-'', ''*'', ''/'', ''%''}
      \<and> analyzeExpression l a = (leftType, a1) \<and> analyzeExpression r a1 = (rightType, a2) \<longrightarrow>
      analyzeBinaryOp l op r a
        = (NUMBER,
           a2\<lparr>errors := errors a2
              @ (if leftType \<in> {NUMBER, UNKNOWN, VOID} then []
                 else [''ERROR: Left operand of '' @ q @ op @ q @ '' must be number''])
              @ (if rightType \<in> {NUMBER, UNKNOWN, VOID} then []
                 else [''ERROR: Right operand of '' @ q @ op @ q @ '' must be number''])\<rparr>))
   \<and> (lookup n (symbolTable a) = Some funcSym \<and> isFunction funcSym \<and> n \<notin> set builtinNames \<longrightarrow>
        fst (analyzeFunctionCall n args a) = returnType funcSym)
   \<and> (f \<notin> set params \<longrightarrow>
        lookup f (defineParams params (enterScope (addFunctionSignature f pts VOID [g])))
          = Some ((mkSymbol f VOID True True)\<lparr>paramTypes := pts, returnType := VOID\<rparr>))"
proof (intro conjI impI)
  assume "op \<in> {''+'', ''-'', ''*'', ''/'', ''%''}
      \<and> analyzeExpression l a = (leftType, a1) \<and> analyzeExpression r a1 = (rightType, a2)"
  then show "analyzeBinaryOp l op r a
        = (NUMBER,
           a2\<lparr>errors := errors a2
              @ (if leftType \<in> {NUMBER, UNKNOWN, VOID} then []
                 else [''ERROR: Left operand of '' @ q @ op @ q @ '' must be number''])
              @ (if rightType \<in> {NUMBER, UNKNOWN, VOID} then []
                 else [''ERROR: Right operand of '' @ q @ op @ q @ '' must be number''])\<rparr>)"
    by (auto simp: analyzeBinaryOp_def checkBinaryOp_def pushError_def Let_def)
next
  assume "lookup n (symbolTable a) = Some funcSym \<and> isFunction funcSym \<and> n \<notin> set builtinNames"
  then show "fst (analyzeFunctionCall n args a) = returnType funcSym"
    by (simp add: analyzeFunctionCall_def builtinNames_def)
next
  let ?g = "g(f \<mapsto> (mkSymbol f VOID True True)\<lparr>paramTypes := pts, returnType := VOID\<rparr>)"
  assume "f \<notin> set params"
  moreover have "enterScope (addFunctionSignature f pts VOID [g]) = [?g] @ [Map.empty]"
    by (simp add: enterScope_def addFunctionSignature_Cons)
  ultimately
  show "lookup f (defineParams params (enterScope (addFunctionSignature f pts VOID [g])))
          = Some ((mkSymbol f VOID True True)\<lparr>paramTypes := pts, returnType := VOID\<rparr>)"
    by (simp only: defineParams_snoc) (simp add: lookup_def)
qed

lemma factBody_lookups:
  "lookup ''n'' (symbolTable factBody) = Some (mkSymbol ''n'' UNKNOWN False True)"
  "lookup ''fact'' (symbolTable factBody)
     = Some ((mkSymbol ''fact'' VOID True True)\<lparr>paramTypes := [UNKNOWN], returnType := VOID\<rparr>)"
  by (simp_all add: factBody_def table_eval)

theorem arithmetic_accepts_unknown_and_void_witness:
  "''*'' \<in> {''+'', ''-'', ''*'', ''/'', ''%''}
   \<and> analyzeExpression (Identifier ''n'') factBody = (UNKNOWN, factBody)
   \<and> analyzeExpression
         (FunctionCall ''fact'' [BinaryOp (Identifier ''n'') ''-'' (NumberLiteral ''1'')]) factBody
       = (VOID, factBody)
   \<and> analyzeBinaryOp (Identifier ''n'') ''*''
         (FunctionCall ''fact'' [BinaryOp (Identifier ''n'') ''-'' (NumberLiteral ''1'')]) factBody
       = (NUMBER, factBody)
   \<and> ''fact'' \<notin> set builtinNames
   \<and> ''fact'' \<notin> set [''n'']
   \<and> lookup ''fact'' (symbolTable factBody)
       = Some ((mkSymbol ''fact'' VOID True True)\<lparr>paramTypes := [UNKNOWN], returnType := VOID\<rparr>)
   \<and> fst (analyzeFunctionCall ''fact'' [NumberLiteral ''5''] factBody) = VOID
   \<and> analyze factProgram newSemanticAnalyzer
       = (True, newSemanticAnalyzer
           \<lparr>symbolTable :=
              addFunctionSignature ''main'' [] VOID
                (addFunctionSignature ''fact'' [UNKNOWN] VOID newSymbolTable)\<rparr>)"
proof -
  let ?l = "Identifier ''n''"
  let ?r = "FunctionCall ''fact'' [BinaryOp (Identifier ''n'') ''-'' (NumberLiteral ''1'')]"
  let ?f = "(mkSymbol ''fact'' VOID True True)\<lparr>paramTypes := [UNKNOWN], returnType := VOID\<rparr>"
  note t = arithmetic_accepts_unknown_and_void
             [of "''*''" ?l factBody UNKNOWN factBody ?r VOID factBody "''fact''" ?f
                 "[NumberLiteral ''5'']" "''fact''" "[''n'']" "[UNKNOWN]" "hd newSymbolTable"]
  have m: "''*'' \<in> {''+'', ''-'', ''*'', ''/'', ''%''}" by simp
  have l: "analyzeExpression ?l factBody = (UNKNOWN, factBody)"
    by (simp add: factBody_lookups mkSymbol_def)
  have r: "analyzeExpression ?r factBody = (VOID, factBody)"
    by (simp add: factBody_lookups mkSymbol_def check_eval)
  have b: "''fact'' \<notin> set builtinNames"
    by (simp add: builtinNames_def)
  have d: "''fact'' \<notin> set [''n'']" by simp
  have ns: "[hd newSymbolTable] = newSymbolTable"
    by (simp add: newSymbolTable_def initBuiltins_def addFunctionSignature_Cons)
  from t d have f: "lookup ''fact'' (symbolTable factBody) = Some ?f"
    by (simp add: ns factBody_def newSemanticAnalyzer_def)
  have i: "isFunction ?f \<and> returnType ?f = VOID"
    by (simp add: mkSymbol_def)
  from t f i b have c: "fst (analyzeFunctionCall ''fact'' [NumberLiteral ''5''] factBody) = VOID"
    by simp
  have p: "analyze factProgram newSemanticAnalyzer
       = (True, newSemanticAnalyzer
           \<lparr>symbolTable :=
              addFunctionSignature ''main'' [] VOID
                (addFunctionSignature ''fact'' [UNKNOWN] VOID newSymbolTable)\<rparr>)"
    by (simp add: factProgram_def analyze_def table_eval check_eval)
  from t m l r
  have a: "analyzeBinaryOp ?l ''*'' ?r factBody = (NUMBER, factBody)"
    by simp
  from m l r a b d f c p show ?thesis by blast
qed

lemma errors_analyzeStatements:
  "errors (analyzeStatements ss a) = errors a @ errors (analyzeStatements ss (a\<lparr>errors := []\<rparr>))"
  using analyzeStatement_addErrs(2) [of ss "errors a" "a\<lparr>errors := []\<rparr>"]
  by (simp add: addErrs_self [symmetric])

text \<open>
  Claim C10. For every parameter list, with or without repeated names: a declaration with
  an empty body leaves the diagnostics as they were, and with any body the diagnostics are
  those before the declaration followed by what the body produces by itself; the scope of
  the function binds each parameter name once, to an initialized variable of type
  \<open>UNKNOWN\<close>; and defining a name of the list again in that scope returns \<open>false\<close> and
  changes nothing.
\<close>

theorem duplicate_parameters_silent:
  "errors (analyzeStatement (FunctionDeclaration n params []) a) = errors a
   \<and> errors (analyzeStatement (FunctionDeclaration n params body) a)
       = errors a
         @ errors (analyzeStatements body
             (a\<lparr>symbolTable :=
                  defineParams params
                    (enterScope (addFunctionSignature n (replicate (length params) UNKNOWN) VOID
                       (symbolTable a))),
                inFunction := True, currentReturnType := UNKNOWN, errors := []\<rparr>))
   \<and> defineParams params (enterScope scopes)
       = scopes @ [\<lambda>p. if p \<in> set params then Some (mkSymbol p UNKNOWN False True) else None]
   \<and> (p \<in> set params \<longrightarrow>
        define_sym p UNKNOWN False True (defineParams params (enterScope scopes))
          = (False, defineParams params (enterScope scopes)))"
proof (intro conjI impI)
  show "errors (analyzeStatement (FunctionDeclaration n params []) a) = errors a"
    by (simp add: Let_def)
next
  let ?a3 = "a\<lparr>symbolTable :=
                  defineParams params
                    (enterScope (addFunctionSignature n (replicate (length params) UNKNOWN) VOID
                       (symbolTable a))),
                inFunction := True, currentReturnType := UNKNOWN\<rparr>"
  have "errors (analyzeStatement (FunctionDeclaration n params body) a)
          = errors (analyzeStatements body ?a3)"
    by (cases a) (simp add: Let_def)
  also have "\<dots> = errors ?a3 @ errors (analyzeStatements body (?a3\<lparr>errors := []\<rparr>))"
    by (rule errors_analyzeStatements)
  finally show "errors (analyzeStatement (FunctionDeclaration n params body) a)
       = errors a
         @ errors (analyzeStatements body
             (a\<lparr>symbolTable :=
                  defineParams params
                    (enterScope (addFunctionSignature n (replicate (length params) UNKNOWN) VOID
                       (symbolTable a))),
                inFunction := True, currentReturnType := UNKNOWN, errors := []\<rparr>))"
    by (cases a) simp
next
  show "defineParams params (enterScope scopes)
       = scopes @ [\<lambda>p. if p \<in> set params then Some (mkSymbol p UNKNOWN False True) else None]"
    by (simp add: enterScope_def defineParams_snoc)
next
  assume "p \<in> set params"
  then show "define_sym p UNKNOWN False True (defineParams params (enterScope scopes))
          = (False, defineParams params (enterScope scopes))"
    by (simp add: enterScope_def defineParams_snoc define_sym_snoc)
qed

theorem duplicate_parameters_silent_witness:
  "''x'' \<in> set [''x'', ''x'']
   \<and> \<not> distinct [''x'', ''x'']
   \<and> define_sym ''x'' UNKNOWN False True (defineParams [''x'', ''x''] (enterScope newSymbolTable))
       = (False, defineParams [''x'', ''x''] (enterScope newSymbolTable))
   \<and> defineParams [''x'', ''x''] (enterScope newSymbolTable)
       = defineParams [''x''] (enterScope newSymbolTable)
   \<and> errors (analyzeStatement (FunctionDeclaration ''f'' [''x'', ''x''] []) newSemanticAnalyzer) = []"
proof -
  have m: "''x'' \<in> set [''x'', ''x'']" by simp
  note t = duplicate_parameters_silent
             [of "''f''" "[''x'', ''x'']" newSemanticAnalyzer "[]" newSymbolTable "''x''"]
  from t m have d: "define_sym ''x'' UNKNOWN False True
                      (defineParams [''x'', ''x''] (enterScope newSymbolTable))
       = (False, defineParams [''x'', ''x''] (enterScope newSymbolTable))"
    by blast
  from t have e: "errors (analyzeStatement (FunctionDeclaration ''f'' [''x'', ''x''] [])
                    newSemanticAnalyzer) = errors newSemanticAnalyzer"
    by blast
  have s: "defineParams [''x'', ''x''] (enterScope newSymbolTable)
       = defineParams [''x''] (enterScope newSymbolTable)"
    by (simp add: enterScope_def define_sym_snoc)
  from m d e s show ?thesis by (simp add: newSemanticAnalyzer_def)
qed

end
